theory Spec2Isabelle
  imports Complex_Main
begin

section \<open>JavaScript values\<close>

text \<open>
  A prop or state cell of type \<^verbatim>\<open>string | null\<close> is a \<open>string option\<close>, \<open>None\<close> being
  \<^verbatim>\<open>null\<close>. Strings are byte lists. A string is truthy when it is not empty; \<^verbatim>\<open>null\<close>
  is falsy.
\<close>

definition truthy_str :: "string option \<Rightarrow> bool" where
  "truthy_str s = (case s of None \<Rightarrow> False | Some v \<Rightarrow> v \<noteq> [])"

text \<open>\<^verbatim>\<open>a || b\<close> on two such values.\<close>

definition or_str :: "string option \<Rightarrow> string option \<Rightarrow> string option" where
  "or_str a b = (if truthy_str a then a else b)"

text \<open>
  \<^verbatim>\<open>String.prototype.trim\<close>: white space and line terminators are removed at both ends.
  These are the code points U+0009 to U+000D, U+0020, U+00A0, U+1680, U+2000 to U+200A,
  U+2028, U+2029, U+202F, U+205F, U+3000 and U+FEFF, here in their UTF-8 encoding.
\<close>

definition white_space :: "string list" where
  "white_space =
     [[CHR 0x09], [CHR 0x0A], [CHR 0x0B], [CHR 0x0C], [CHR 0x0D], [CHR 0x20],
      [CHR 0xC2, CHR 0xA0],
      [CHR 0xE1, CHR 0x9A, CHR 0x80],
      [CHR 0xE2, CHR 0x80, CHR 0x80], [CHR 0xE2, CHR 0x80, CHR 0x81],
      [CHR 0xE2, CHR 0x80, CHR 0x82], [CHR 0xE2, CHR 0x80, CHR 0x83],
      [CHR 0xE2, CHR 0x80, CHR 0x84], [CHR 0xE2, CHR 0x80, CHR 0x85],
      [CHR 0xE2, CHR 0x80, CHR 0x86], [CHR 0xE2, CHR 0x80, CHR 0x87],
      [CHR 0xE2, CHR 0x80, CHR 0x88], [CHR 0xE2, CHR 0x80, CHR 0x89],
      [CHR 0xE2, CHR 0x80, CHR 0x8A],
      [CHR 0xE2, CHR 0x80, CHR 0xA8], [CHR 0xE2, CHR 0x80, CHR 0xA9],
      [CHR 0xE2, CHR 0x80, CHR 0xAF],
      [CHR 0xE2, CHR 0x81, CHR 0x9F],
      [CHR 0xE3, CHR 0x80, CHR 0x80],
      [CHR 0xEF, CHR 0xBB, CHR 0xBF]]"

text \<open>
  Removing, at most \<open>n\<close> times, one of the given byte sequences from the start of a string;
  with \<open>n\<close> the length of the string nothing of them is left at its start.
\<close>

fun strip :: "string list \<Rightarrow> nat \<Rightarrow> string \<Rightarrow> string" where
  "strip ws 0 s = s"
| "strip ws (Suc n) s =
     (case find (\<lambda>w. take (length w) s = w) ws of
        None \<Rightarrow> s
      | Some w \<Rightarrow> strip ws n (drop (length w) s))"

definition trim :: "string \<Rightarrow> string" where
  "trim s =
     rev (strip (map rev white_space) (length s) (rev (strip white_space (length s) s)))"

section \<open>Selection state: \<^verbatim>\<open>DashboardPage\<close> and \<^verbatim>\<open>MarketSearch\<close>\<close>

text \<open>
  \<^verbatim>\<open>DashboardPage\<close> holds \<^verbatim>\<open>selectedIndustry\<close> and \<^verbatim>\<open>selectedCompany\<close>, both initially
  \<^verbatim>\<open>null\<close>; \<^verbatim>\<open>MarketSearch\<close> holds \<^verbatim>\<open>searchType\<close> (initially \<^verbatim>\<open>'industry'\<close>) and
  \<^verbatim>\<open>searchValue\<close> (initially empty). The page passes its two setters to \<^verbatim>\<open>MarketSearch\<close>
  as \<^verbatim>\<open>onIndustrySelect\<close> and \<^verbatim>\<open>onCompanySelect\<close>.
\<close>

datatype search_type = Industry | Company

record selection_state =
  selectedIndustry :: "string option"
  selectedCompany :: "string option"
  searchType :: search_type
  searchValue :: string

definition initial_selection :: selection_state where
  "initial_selection =
     \<lparr>selectedIndustry = None, selectedCompany = None, searchType = Industry, searchValue = []\<rparr>"

definition onIndustrySelect :: "string option \<Rightarrow> selection_state \<Rightarrow> selection_state" where
  "onIndustrySelect v s = s\<lparr>selectedIndustry := v\<rparr>"

definition onCompanySelect :: "string option \<Rightarrow> selection_state \<Rightarrow> selection_state" where
  "onCompanySelect v s = s\<lparr>selectedCompany := v\<rparr>"

definition setSearchValue :: "string \<Rightarrow> selection_state \<Rightarrow> selection_state" where
  "setSearchValue v s = s\<lparr>searchValue := v\<rparr>"

definition setSearchType :: "search_type \<Rightarrow> selection_state \<Rightarrow> selection_state" where
  "setSearchType t s = s\<lparr>searchType := t\<rparr>"

text \<open>
  The handlers call the setters one after the other; the state after the handler is the
  state with all of its updates applied, in the order of the calls. \<^verbatim>\<open>searchType\<close> is read
  from the render the handler was created in, which is the state the handler starts from.
\<close>

definition handleIndustryChange :: "string \<Rightarrow> selection_state \<Rightarrow> selection_state" where
  "handleIndustryChange v s =
     (let s1 = setSearchValue v s;
          s2 = (if v \<noteq> [] then onCompanySelect None (onIndustrySelect (Some v) s1)
                else onCompanySelect None (onIndustrySelect None s1))
      in if searchType s = Company then setSearchValue [] s2 else s2)"

definition handleCompanyChange :: "string \<Rightarrow> selection_state \<Rightarrow> selection_state" where
  "handleCompanyChange v s =
     (let s1 = setSearchValue v s
      in if trim v \<noteq> [] then onIndustrySelect None (onCompanySelect (Some (trim v)) s1)
         else onIndustrySelect None (onCompanySelect None s1))"

text \<open>The two mode buttons.\<close>

definition clickIndustryButton :: "selection_state \<Rightarrow> selection_state" where
  "clickIndustryButton s =
     onCompanySelect None (onIndustrySelect None (setSearchValue [] (setSearchType Industry s)))"

definition clickCompanyButton :: "selection_state \<Rightarrow> selection_state" where
  "clickCompanyButton s =
     onCompanySelect None (onIndustrySelect None (setSearchValue [] (setSearchType Company s)))"

datatype ui_event =
    IndustryChange string
  | CompanyChange string
  | IndustryButton
  | CompanyButton

fun handle :: "ui_event \<Rightarrow> selection_state \<Rightarrow> selection_state" where
  "handle (IndustryChange v) s = handleIndustryChange v s"
| "handle (CompanyChange v) s = handleCompanyChange v s"
| "handle IndustryButton s = clickIndustryButton s"
| "handle CompanyButton s = clickCompanyButton s"

text \<open>The state after a sequence of user actions, from a given state.\<close>

fun handle_all :: "ui_event list \<Rightarrow> selection_state \<Rightarrow> selection_state" where
  "handle_all [] s = s"
| "handle_all (e # es) s = handle_all es (handle e s)"

text \<open>At most one of the two selections is set.\<close>

definition exclusive :: "selection_state \<Rightarrow> bool" where
  "exclusive s = (selectedIndustry s = None \<or> selectedCompany s = None)"

section \<open>Numbers of the API payloads\<close>

text \<open>
  A numeric field of a JSON payload as the components read it: absent (\<^verbatim>\<open>undefined\<close>),
  \<^verbatim>\<open>null\<close>, a number, or \<^verbatim>\<open>NaN\<close> (which arithmetic on \<^verbatim>\<open>undefined\<close> produces). Numbers are
  rationals; the rounding of doubles is outside the model.
\<close>

datatype jsnum = JUndefined | JNull | JNumber rat | JNaN

fun truthy :: "jsnum \<Rightarrow> bool" where
  "truthy JUndefined = False"
| "truthy JNull = False"
| "truthy (JNumber q) = (q \<noteq> 0)"
| "truthy JNaN = False"

text \<open>\<^verbatim>\<open>a || b\<close>.\<close>

definition js_or :: "jsnum \<Rightarrow> jsnum \<Rightarrow> jsnum" where
  "js_or a b = (if truthy a then a else b)"

text \<open>\<^verbatim>\<open>x / d\<close> for a non-zero numeric literal \<open>d\<close>: \<^verbatim>\<open>undefined\<close> becomes \<^verbatim>\<open>NaN\<close>, \<^verbatim>\<open>null\<close> becomes 0.\<close>

fun js_div :: "jsnum \<Rightarrow> rat \<Rightarrow> jsnum" where
  "js_div JUndefined d = JNaN"
| "js_div JNull d = JNumber 0"
| "js_div (JNumber q) d = JNumber (q / d)"
| "js_div JNaN d = JNaN"

datatype js_error = TypeError

text \<open>
  \<^verbatim>\<open>x.toFixed(n)\<close>: reading a property of \<^verbatim>\<open>undefined\<close> or \<^verbatim>\<open>null\<close> throws a TypeError; a
  number is printed with \<open>n\<close> decimals (kept as the number and the digit count), \<^verbatim>\<open>NaN\<close> as
  the text NaN.
\<close>

datatype fixed = Fixed rat nat | FixedNaN

fun toFixed :: "jsnum \<Rightarrow> nat \<Rightarrow> js_error + fixed" where
  "toFixed JUndefined n = Inl TypeError"
| "toFixed JNull n = Inl TypeError"
| "toFixed (JNumber q) n = Inr (Fixed q n)"
| "toFixed JNaN n = Inr FixedNaN"

section \<open>\<^verbatim>\<open>KPICards\<close>\<close>

record market_metrics =
  growth_rate :: jsnum
  funding_volume :: jsnum
  market_size :: jsnum

text \<open>The market response: an object whose \<^verbatim>\<open>metrics\<close> may be absent.\<close>

record market_data =
  metrics :: "market_metrics option"

text \<open>\<^verbatim>\<open>marketData?.metrics\<close>, where \<^verbatim>\<open>marketData\<close> is \<^verbatim>\<open>undefined\<close> until the query has data.\<close>

definition optional_metrics :: "market_data option \<Rightarrow> market_metrics option" where
  "optional_metrics marketData = (case marketData of None \<Rightarrow> None | Some d \<Rightarrow> metrics d)"

record kpi_state =
  growthRate :: jsnum
  fundingVolume :: jsnum
  marketSize :: jsnum

definition initial_kpis :: kpi_state where
  "initial_kpis = \<lparr>growthRate = JNumber 0, fundingVolume = JNumber 0, marketSize = JNumber 0\<rparr>"

text \<open>The effect of \<^verbatim>\<open>KPICards\<close>, run on \<^verbatim>\<open>[marketData, industry, company]\<close>.\<close>

definition KPICards_effect ::
  "market_data option \<Rightarrow> string option \<Rightarrow> string option \<Rightarrow> kpi_state \<Rightarrow> kpi_state" where
  "KPICards_effect marketData industry company kpis =
     (case optional_metrics marketData of
        Some m \<Rightarrow>
          \<lparr>growthRate = js_or (growth_rate m) (JNumber 0),
           fundingVolume = js_or (funding_volume m) (JNumber 0),
           marketSize = js_or (market_size m) (JNumber 0)\<rparr>
      | None \<Rightarrow>
          if \<not> truthy_str industry \<and> \<not> truthy_str company then initial_kpis else kpis)"

text \<open>
  The three cards. Each \<^verbatim>\<open>value\<close> (the field \<open>shown\<close> here) is a prefix, the result of
  \<^verbatim>\<open>toFixed(1)\<close> and a suffix; the array is built left to right and the first throw aborts
  the render. The icons are left out.
\<close>

record card =
  label :: string
  shown :: "string \<times> fixed \<times> string"

definition cards :: "kpi_state \<Rightarrow> js_error + card list" where
  "cards kpis =
     (case toFixed (growthRate kpis) 1 of
        Inl e \<Rightarrow> Inl e
      | Inr g \<Rightarrow>
     (case toFixed (js_div (fundingVolume kpis) 1000000) 1 of
        Inl e \<Rightarrow> Inl e
      | Inr f \<Rightarrow>
     (case toFixed (js_div (marketSize kpis) 1000000000) 1 of
        Inl e \<Rightarrow> Inl e
      | Inr m \<Rightarrow>
          Inr [\<lparr>label = ''Growth Rate'', shown = ([], g, ''%'')\<rparr>,
               \<lparr>label = ''Funding Volume'', shown = (''$'', f, ''M'')\<rparr>,
               \<lparr>label = ''Market Size'', shown = (''$'', m, ''B'')\<rparr>])))"




section \<open>\<^verbatim>\<open>TrendChart\<close>: the forecast fetcher\<close>

datatype api_error = NetworkError | HttpError nat | DecodeError

text \<open>
  What the fetcher hands to \<^verbatim>\<open>api.getForecast\<close>, without its constant empty \<^verbatim>\<open>data\<close>
  array; \<^verbatim>\<open>x || undefined\<close> keeps a truthy string. The field \<^verbatim>\<open>value\<close> of an item and of a
  chart point is \<open>item_value\<close> and \<open>point_value\<close> here.
\<close>

record forecast_params =
  metric :: string
  periods :: nat
  industry :: "string option"
  company :: "string option"

definition or_undefined :: "string option \<Rightarrow> string option" where
  "or_undefined s = (if truthy_str s then s else None)"

record forecast_item =
  yhat :: jsnum
  item_value :: jsnum

text \<open>
  The \<^verbatim>\<open>forecast\<close> field of the response: absent, an array whose elements are objects or
  \<^verbatim>\<open>null\<close> (\<open>None\<close>), or a value that is not an array.
\<close>

datatype forecast_field = Absent | Items "forecast_item option list" | NotAnArray

record forecast_response =
  forecast :: forecast_field

record chart_point =
  month :: nat
  point_value :: jsnum

definition to_point :: "nat \<Rightarrow> forecast_item \<Rightarrow> chart_point" where
  "to_point index item =
     \<lparr>month = index + 1, point_value = js_or (js_or (yhat item) (item_value item)) (JNumber 0)\<rparr>"

text \<open>\<^verbatim>\<open>.map((item, index) => ...)\<close> from a start index; reading a field of a null item throws.\<close>

fun map_items :: "nat \<Rightarrow> forecast_item option list \<Rightarrow> js_error + chart_point list" where
  "map_items index [] = Inr []"
| "map_items index (None # rest) = Inl TypeError"
| "map_items index (Some item # rest) =
     (case map_items (Suc index) rest of
        Inl e \<Rightarrow> Inl e
      | Inr ps \<Rightarrow> Inr (to_point index item # ps))"

datatype failure = Api api_error | Js js_error

text \<open>
  The body of the \<^verbatim>\<open>try\<close> block. \<open>getForecast\<close> is \<^verbatim>\<open>api.getForecast\<close> with the remote service
  behind it: it rejects with an error or resolves to the response body, \<open>None\<close> when the
  body is \<^verbatim>\<open>null\<close>.
\<close>

definition TrendChart_params :: "string option \<Rightarrow> string option \<Rightarrow> forecast_params" where
  "TrendChart_params ind com =
     \<lparr>metric = ''growth'', periods = 12,
      industry = or_undefined ind, company = or_undefined com\<rparr>"

definition forecast_try ::
  "(forecast_params \<Rightarrow> api_error + forecast_response option) \<Rightarrow> string option \<Rightarrow> string option
     \<Rightarrow> failure + chart_point list" where
  "forecast_try getForecast ind com =
     (case getForecast (TrendChart_params ind com) of
        Inl e \<Rightarrow> Inl (Api e)
      | Inr None \<Rightarrow> Inl (Js TypeError)
      | Inr (Some r) \<Rightarrow>
          (case forecast r of
             Absent \<Rightarrow> Inr []
           | NotAnArray \<Rightarrow> Inl (Js TypeError)
           | Items xs \<Rightarrow>
               (case map_items 0 (take 12 xs) of
                  Inl e \<Rightarrow> Inl (Js e)
                | Inr ps \<Rightarrow> Inr ps)))"

text \<open>The \<^verbatim>\<open>queryFn\<close> of \<^verbatim>\<open>TrendChart\<close>: \<open>Inl\<close> is a rejection, \<open>Inr\<close> the resolved value.\<close>

definition TrendChart_queryFn ::
  "(forecast_params \<Rightarrow> api_error + forecast_response option) \<Rightarrow> string option \<Rightarrow> string option
     \<Rightarrow> failure + chart_point list" where
  "TrendChart_queryFn getForecast ind com =
     (if \<not> truthy_str ind \<and> \<not> truthy_str com then Inr []
      else case forecast_try getForecast ind com of
             Inl e \<Rightarrow> Inr []
           | Inr ps \<Rightarrow> Inr ps)"

section \<open>The panels\<close>

text \<open>
  A panel renders a prompt when nothing is selected, a loading text while its query is
  loading, and its content otherwise. Each component is a function of its props and of the
  \<^verbatim>\<open>data\<close> and \<^verbatim>\<open>isLoading\<close> that \<^verbatim>\<open>useQuery\<close> returned.
\<close>

datatype 'a panel = Prompt string | Busy string | Shown 'a

definition TrendChart ::
  "string option \<Rightarrow> string option \<Rightarrow> chart_point list option \<Rightarrow> bool
     \<Rightarrow> (string \<times> chart_point list option) panel" where
  "TrendChart ind com forecastData loading =
     (if \<not> truthy_str ind \<and> \<not> truthy_str com
      then Prompt ''Select an industry or company to view trends''
      else if loading then Busy ''Loading chart...''
      else Shown (if truthy_str com then ''Stock Price ($)'' else ''Growth Index'', forecastData))"

record swot_content =
  strengths :: "string list option"
  weaknesses :: "string list option"
  opportunities :: "string list option"
  threats :: "string list option"

record strategy_response =
  content :: "swot_content option"
  recommendations :: "string list option"

text \<open>\<^verbatim>\<open>xs || []\<close> for an array that may be absent.\<close>

definition or_empty :: "'a list option \<Rightarrow> 'a list" where
  "or_empty xs = (case xs of None \<Rightarrow> [] | Some ys \<Rightarrow> ys)"

text \<open>\<^verbatim>\<open>strategy?.content || {}\<close>.\<close>

definition swotData :: "strategy_response option \<Rightarrow> swot_content" where
  "swotData strategy =
     (case (case strategy of None \<Rightarrow> None | Some r \<Rightarrow> content r) of
        None \<Rightarrow> \<lparr>strengths = None, weaknesses = None, opportunities = None, threats = None\<rparr>
      | Some c \<Rightarrow> c)"

text \<open>The four quadrants, in the order strengths, weaknesses, opportunities, threats.\<close>

definition SWOTMatrix ::
  "string option \<Rightarrow> string option \<Rightarrow> strategy_response option \<Rightarrow> bool
     \<Rightarrow> (string list \<times> string list \<times> string list \<times> string list) panel" where
  "SWOTMatrix ind com strategy loading =
     (if \<not> truthy_str ind \<and> \<not> truthy_str com
      then Prompt ''Select an industry or company to generate SWOT analysis''
      else if loading then Busy ''Generating SWOT...''
      else Shown (or_empty (strengths (swotData strategy)),
                  or_empty (weaknesses (swotData strategy)),
                  or_empty (opportunities (swotData strategy)),
                  or_empty (threats (swotData strategy))))"

definition StrategicRecommendations ::
  "string option \<Rightarrow> string option \<Rightarrow> strategy_response option \<Rightarrow> bool \<Rightarrow> string list panel" where
  "StrategicRecommendations ind com strategy loading =
     (if \<not> truthy_str ind \<and> \<not> truthy_str com
      then Prompt ''Select an industry or company to view recommendations''
      else if loading then Busy ''Generating recommendations...''
      else Shown (or_empty (case strategy of None \<Rightarrow> None | Some r \<Rightarrow> recommendations r)))"

record insights_data =
  summary :: "string option"
  key_takeaways :: "string list option"

text \<open>
  The summary text, and the list of takeaways, which is rendered only when it is present
  and not empty.
\<close>

definition AISummary ::
  "string option \<Rightarrow> string option \<Rightarrow> insights_data option \<Rightarrow> bool
     \<Rightarrow> (string \<times> string list option) panel" where
  "AISummary ind com insights loading =
     (if \<not> truthy_str ind \<and> \<not> truthy_str com
      then Prompt ''Select an industry or company to generate insights''
      else if loading then Busy ''Generating insights...''
      else Shown
        (case (case insights of None \<Rightarrow> None | Some r \<Rightarrow> summary r) of
           None \<Rightarrow> ''No insights available''
         | Some t \<Rightarrow> if t = [] then ''No insights available'' else t,
         case (case insights of None \<Rightarrow> None | Some r \<Rightarrow> key_takeaways r) of
           None \<Rightarrow> None
         | Some ts \<Rightarrow> if 0 < length ts then Some ts else None))"

section \<open>Query keys and enablement\<close>

text \<open>
  An element of a \<^verbatim>\<open>queryKey\<close> array: a string, \<^verbatim>\<open>null\<close>, \<^verbatim>\<open>undefined\<close>, or the metrics
  object that the insights key embeds.
\<close>

datatype key_part = KStr string | KNull | KUndefined | KMetrics market_metrics

type_synonym query_key = "key_part list"

definition key_of :: "string option \<Rightarrow> key_part" where
  "key_of s = (case s of None \<Rightarrow> KNull | Some v \<Rightarrow> KStr v)"

definition KPICards_queryKey :: "string option \<Rightarrow> string option \<Rightarrow> query_key" where
  "KPICards_queryKey ind com = [KStr ''market'', key_of ind, key_of com]"

definition KPICards_enabled :: "string option \<Rightarrow> string option \<Rightarrow> bool" where
  "KPICards_enabled ind com = truthy_str (or_str ind com)"

definition TrendChart_queryKey :: "string option \<Rightarrow> string option \<Rightarrow> query_key" where
  "TrendChart_queryKey ind com = [KStr ''forecast'', key_of ind, key_of com]"

definition TrendChart_enabled :: "string option \<Rightarrow> string option \<Rightarrow> bool" where
  "TrendChart_enabled ind com = truthy_str (or_str ind com)"

definition SWOTMatrix_queryKey :: "string option \<Rightarrow> string option \<Rightarrow> query_key" where
  "SWOTMatrix_queryKey ind com = [KStr ''strategy'', KStr ''swot'', key_of ind, key_of com]"

definition SWOTMatrix_enabled :: "string option \<Rightarrow> string option \<Rightarrow> bool" where
  "SWOTMatrix_enabled ind com = truthy_str (or_str ind com)"

definition StrategicRecommendations_queryKey :: "string option \<Rightarrow> string option \<Rightarrow> query_key" where
  "StrategicRecommendations_queryKey ind com =
     [KStr ''strategy'', KStr ''growth'', key_of ind, key_of com]"

definition StrategicRecommendations_enabled :: "string option \<Rightarrow> string option \<Rightarrow> bool" where
  "StrategicRecommendations_enabled ind com = truthy_str (or_str ind com)"

text \<open>\<^verbatim>\<open>AISummary\<close> subscribes to the market query and to the insights query.\<close>

definition AISummary_market_queryKey :: "string option \<Rightarrow> string option \<Rightarrow> query_key" where
  "AISummary_market_queryKey ind com = [KStr ''market'', key_of ind, key_of com]"

definition AISummary_market_enabled :: "string option \<Rightarrow> string option \<Rightarrow> bool" where
  "AISummary_market_enabled ind com = truthy_str (or_str ind com)"

definition AISummary_insights_queryKey ::
  "string option \<Rightarrow> string option \<Rightarrow> market_data option \<Rightarrow> query_key" where
  "AISummary_insights_queryKey ind com marketData =
     [KStr ''insights'', key_of ind, key_of com,
      case optional_metrics marketData of None \<Rightarrow> KUndefined | Some m \<Rightarrow> KMetrics m]"

text \<open>\<^verbatim>\<open>!!(industry || company) && !!marketData\<close>; the market response is an object, so it
  is truthy whenever it is there.\<close>

definition AISummary_insights_enabled ::
  "string option \<Rightarrow> string option \<Rightarrow> market_data option \<Rightarrow> bool" where
  "AISummary_insights_enabled ind com marketData =
     (truthy_str (or_str ind com) \<and> marketData \<noteq> None)"

text \<open>
  Modelled from the spec: QueryKey equality (section 3: two keys are equal iff all tuple
  elements are deep-equal), which the repository leaves to the query library. It is the
  comparison of the elements one by one, objects field by field.
\<close>

fun part_eq :: "key_part \<Rightarrow> key_part \<Rightarrow> bool" where
  "part_eq (KStr a) (KStr b) = (a = b)"
| "part_eq KNull KNull = True"
| "part_eq KUndefined KUndefined = True"
| "part_eq (KMetrics m) (KMetrics n) =
     (growth_rate m = growth_rate n \<and> funding_volume m = funding_volume n
      \<and> market_size m = market_size n)"
| "part_eq a b = False"

fun key_eq :: "query_key \<Rightarrow> query_key \<Rightarrow> bool" where
  "key_eq [] [] = True"
| "key_eq (a # as) (b # bs) = (part_eq a b \<and> key_eq as bs)"
| "key_eq as bs = False"

section \<open>The query client\<close>

text \<open>
  The default options that \<^verbatim>\<open>Providers\<close> gives its \<^verbatim>\<open>QueryClient\<close>. It sets the four
  below and no other; \<^verbatim>\<open>retry\<close> in particular is absent (\<open>None\<close>).
\<close>

record query_options =
  staleTime :: nat
  refetchOnWindowFocus :: bool
  refetchOnMount :: bool
  refetchOnReconnect :: bool
  retry :: "nat option"

definition Providers :: query_options where
  "Providers =
     \<lparr>staleTime = 0, refetchOnWindowFocus = False, refetchOnMount = True,
      refetchOnReconnect = True, retry = None\<rparr>"

text \<open>
  The option \<^verbatim>\<open>retry\<close>: how many times the query library invokes a fetcher again after it
  rejected, before the query fails. Where the option is absent the library's default
  applies, which is three retries.
\<close>

definition default_retry :: nat where
  "default_retry = 3"

definition retries :: "query_options \<Rightarrow> nat" where
  "retries opts = (case retry opts of None \<Rightarrow> default_retry | Some n \<Rightarrow> n)"

datatype status = Idle | Loading | Success | Failure

datatype payload =
    MarketData market_data
  | InsightsData insights_data
  | StrategyData strategy_response
  | ForecastData "chart_point list"

text \<open>
  Modelled from the spec: the Cache Store and its QueryEntry (sections 3 and 4.2). In the
  repository the store is the \<^verbatim>\<open>QueryClient\<close> of the query library, whose code is not
  part of it; what the repository decides are the options above, which govern when an entry
  is fetched again. An entry keeps the status, the last resolved value, the last error, the
  time of the last resolution and the number of rejections of the fetch in flight; the
  store keeps the entries by key, a clock, and the log of fetcher invocations, oldest
  first.
\<close>

record entry =
  status :: status
  data :: "payload option"
  error :: "failure option"
  updatedAt :: nat
  failureCount :: nat

record store =
  entries :: "query_key \<Rightarrow> entry option"
  fetches :: "query_key list"
  now :: nat

definition empty_store :: store where
  "empty_store = \<lparr>entries = (\<lambda>k. None), fetches = [], now = 0\<rparr>"

text \<open>
  Modelled from the spec: starting a fetch of a key. The entry becomes Loading (a new
  entry has no value), its count of rejections starts at 0, and the invocation of the
  fetcher is logged.
\<close>

definition fetch :: "query_key \<Rightarrow> store \<Rightarrow> store" where
  "fetch k s =
     s\<lparr>entries := (entries s)
          (k := Some (case entries s k of
                        None \<Rightarrow> \<lparr>status = Loading, data = None, error = None, updatedAt = 0,
                                 failureCount = 0\<rparr>
                      | Some e \<Rightarrow> e\<lparr>status := Loading, failureCount := 0\<rparr>)),
       fetches := fetches s @ [k]\<rparr>"

text \<open>
  The option \<^verbatim>\<open>staleTime\<close>: an entry is stale when it has no value or its value is at
  least \<^verbatim>\<open>staleTime\<close> old. \<^verbatim>\<open>Providers\<close> sets 0, to always consider data stale.
\<close>

definition is_stale :: "query_options \<Rightarrow> nat \<Rightarrow> entry \<Rightarrow> bool" where
  "is_stale opts t e = (data e = None \<or> staleTime opts \<le> t - updatedAt e)"

text \<open>
  Modelled from the spec: \<^verbatim>\<open>subscribe\<close> (section 4.2). A key without an entry is fetched;
  an entry that is Loading is shared, which is the at-most-one in-flight request per key;
  an entry with a value is reused, unless \<^verbatim>\<open>refetchOnMount\<close> is set and the value is stale.
\<close>

definition subscribe :: "query_options \<Rightarrow> query_key \<Rightarrow> store \<Rightarrow> store" where
  "subscribe opts k s =
     (case entries s k of
        None \<Rightarrow> fetch k s
      | Some e \<Rightarrow>
          if status e = Loading then s
          else if data e = None \<or> (refetchOnMount opts \<and> is_stale opts (now s) e) then fetch k s
          else s)"

text \<open>
  Modelled from the spec: the settlement of a fetch is applied to the entry of the key it
  was issued for (section 4.2), Success with the value on resolve, Failure with the error
  on the rejection that ends the fetch; a rejection keeps the value the entry had.
\<close>

definition resolve :: "query_key \<Rightarrow> payload \<Rightarrow> store \<Rightarrow> store" where
  "resolve k p s =
     (case entries s k of
        None \<Rightarrow> s
      | Some e \<Rightarrow>
          if status e = Loading
          then s\<lparr>entries := (entries s)
                 (k := Some \<lparr>status = Success, data = Some p, error = None, updatedAt = now s,
                             failureCount = 0\<rparr>)\<rparr>
          else s)"

definition reject :: "query_key \<Rightarrow> failure \<Rightarrow> store \<Rightarrow> store" where
  "reject k err s =
     (case entries s k of
        None \<Rightarrow> s
      | Some e \<Rightarrow>
          if status e = Loading
          then s\<lparr>entries := (entries s)(k := Some (e\<lparr>status := Failure, error := Some err\<rparr>))\<rparr>
          else s)"

definition settle :: "query_key \<Rightarrow> failure + payload \<Rightarrow> store \<Rightarrow> store" where
  "settle k outcome s = (case outcome of Inl err \<Rightarrow> reject k err s | Inr p \<Rightarrow> resolve k p s)"

text \<open>
  A retry: the fetcher of the key is invoked again, which is logged, and the entry, still
  Loading, counts one more rejection. The delay that the library waits before a retry is
  not modelled.
\<close>

definition retry_fetch :: "query_key \<Rightarrow> store \<Rightarrow> store" where
  "retry_fetch k s =
     s\<lparr>entries := (entries s)
          (k := map_option (\<lambda>e. e\<lparr>failureCount := failureCount e + 1\<rparr>) (entries s k)),
       fetches := fetches s @ [k]\<rparr>"

definition retries_left :: "query_options \<Rightarrow> store \<Rightarrow> query_key \<Rightarrow> bool" where
  "retries_left opts s k =
     (case entries s k of
        None \<Rightarrow> False
      | Some e \<Rightarrow> status e = Loading \<and> failureCount e < retries opts)"

text \<open>
  What the store does when the fetcher of a key has settled. A rejection of a key that is
  still observed (\<open>watched\<close>) and has retries left invokes the fetcher again; a key that no
  component observes any more is not retried. Every other outcome settles the entry.
\<close>

definition settled ::
  "query_options \<Rightarrow> bool \<Rightarrow> query_key \<Rightarrow> failure + payload \<Rightarrow> store \<Rightarrow> store" where
  "settled opts watched k outcome s =
     (case outcome of
        Inl err \<Rightarrow> if watched \<and> retries_left opts s k then retry_fetch k s else settle k outcome s
      | Inr p \<Rightarrow> settle k outcome s)"

text \<open>
  The options \<^verbatim>\<open>refetchOnWindowFocus\<close> and \<^verbatim>\<open>refetchOnReconnect\<close>: on a window-focus or
  reconnect event whose option \<open>flag\<close> is set, every observed key whose entry is stale
  and not already Loading is fetched again; with the option off the event does nothing.
\<close>

definition refetch_one :: "bool \<Rightarrow> query_options \<Rightarrow> query_key \<Rightarrow> store \<Rightarrow> store" where
  "refetch_one flag opts k s =
     (case entries s k of
        None \<Rightarrow> s
      | Some e \<Rightarrow>
          if flag \<and> status e \<noteq> Loading \<and> is_stale opts (now s) e then fetch k s else s)"

fun refetch_observed :: "bool \<Rightarrow> query_options \<Rightarrow> query_key list \<Rightarrow> store \<Rightarrow> store" where
  "refetch_observed flag opts [] s = s"
| "refetch_observed flag opts (k # ks) s =
     refetch_observed flag opts ks (refetch_one flag opts k s)"

fun subscribe_all :: "query_options \<Rightarrow> query_key list \<Rightarrow> store \<Rightarrow> store" where
  "subscribe_all opts [] s = s"
| "subscribe_all opts (k # ks) s = subscribe_all opts ks (subscribe opts k s)"

text \<open>
  Modelled from the spec: what a subscribed product exposes to its panel (section 6), as
  the \<^verbatim>\<open>data\<close> and \<^verbatim>\<open>isLoading\<close> that the components take from \<^verbatim>\<open>useQuery\<close>: the value of
  the entry of the key, and \<^verbatim>\<open>isLoading\<close> while that entry is Loading without a value. A
  key without an entry (a query that was never enabled) has neither.
\<close>

record query_result =
  result :: "payload option"
  isLoading :: bool

definition useQuery :: "store \<Rightarrow> query_key \<Rightarrow> query_result" where
  "useQuery s k =
     (case entries s k of
        None \<Rightarrow> \<lparr>result = None, isLoading = False\<rparr>
      | Some e \<Rightarrow> \<lparr>result = data e, isLoading = (status e = Loading \<and> data e = None)\<rparr>)"

fun as_market :: "payload option \<Rightarrow> market_data option" where
  "as_market (Some (MarketData d)) = Some d"
| "as_market p = None"

fun as_insights :: "payload option \<Rightarrow> insights_data option" where
  "as_insights (Some (InsightsData d)) = Some d"
| "as_insights p = None"

fun as_strategy :: "payload option \<Rightarrow> strategy_response option" where
  "as_strategy (Some (StrategyData d)) = Some d"
| "as_strategy p = None"

fun as_forecast :: "payload option \<Rightarrow> chart_point list option" where
  "as_forecast (Some (ForecastData d)) = Some d"
| "as_forecast p = None"

section \<open>The dashboard\<close>

text \<open>
  The page state, the local state of \<^verbatim>\<open>KPICards\<close>, the store, and the keys that the mounted
  components currently observe.
\<close>

record dashboard =
  sel :: selection_state
  kpis :: kpi_state
  cache :: store
  observed :: "query_key list"

definition initial_dashboard :: dashboard where
  "initial_dashboard =
     \<lparr>sel = initial_selection, kpis = initial_kpis, cache = empty_store, observed = []\<rparr>"

text \<open>The market data that \<^verbatim>\<open>KPICards\<close> and \<^verbatim>\<open>AISummary\<close> read for a selection.\<close>

definition market_of :: "store \<Rightarrow> string option \<Rightarrow> string option \<Rightarrow> market_data option" where
  "market_of s ind com = as_market (result (useQuery s (AISummary_market_queryKey ind com)))"

text \<open>
  The keys of the enabled queries, in the order in which the page renders the components:
  \<^verbatim>\<open>KPICards\<close>, \<^verbatim>\<open>TrendChart\<close>, \<^verbatim>\<open>SWOTMatrix\<close>, \<^verbatim>\<open>AISummary\<close> (market, then insights),
  \<^verbatim>\<open>StrategicRecommendations\<close>. A disabled query is not handed to the store.
\<close>

definition enabled_keys ::
  "string option \<Rightarrow> string option \<Rightarrow> market_data option \<Rightarrow> query_key list" where
  "enabled_keys ind com marketData =
     (if KPICards_enabled ind com then [KPICards_queryKey ind com] else [])
     @ (if TrendChart_enabled ind com then [TrendChart_queryKey ind com] else [])
     @ (if SWOTMatrix_enabled ind com then [SWOTMatrix_queryKey ind com] else [])
     @ (if AISummary_market_enabled ind com then [AISummary_market_queryKey ind com] else [])
     @ (if AISummary_insights_enabled ind com marketData
        then [AISummary_insights_queryKey ind com marketData] else [])
     @ (if StrategicRecommendations_enabled ind com
        then [StrategicRecommendations_queryKey ind com] else [])"

text \<open>
  A render: the effect of \<^verbatim>\<open>KPICards\<close> runs on the market data of the current key, and
  every enabled key that was not observed before is subscribed.
\<close>

definition render :: "query_options \<Rightarrow> dashboard \<Rightarrow> dashboard" where
  "render opts d =
     (let ind = selectedIndustry (sel d);
          com = selectedCompany (sel d);
          marketData = market_of (cache d) ind com;
          wanted = enabled_keys ind com marketData
      in d\<lparr>kpis := KPICards_effect marketData ind com (kpis d),
            cache := subscribe_all opts (filter (\<lambda>k. k \<notin> set (observed d)) wanted) (cache d),
            observed := wanted\<rparr>)"

text \<open>
  The page gives each component a \<^verbatim>\<open>key\<close> built from the selection; when it changes the
  component is mounted anew and its local state starts over. \<^verbatim>\<open>null\<close> prints as \<^verbatim>\<open>null\<close>.
\<close>

definition template :: "string option \<Rightarrow> string" where
  "template s = (case s of None \<Rightarrow> ''null'' | Some v \<Rightarrow> v)"

definition KPICards_key :: "selection_state \<Rightarrow> string" where
  "KPICards_key s = ''kpi-'' @ template (selectedIndustry s) @ ''-'' @ template (selectedCompany s)"

datatype event =
    User ui_event
  | Settled query_key "failure + payload"
  | WindowFocus
  | Reconnect
  | Elapse nat

fun step :: "query_options \<Rightarrow> event \<Rightarrow> dashboard \<Rightarrow> dashboard" where
  "step opts (User e) d =
     render opts
       (d\<lparr>sel := handle e (sel d),
          kpis := (if KPICards_key (handle e (sel d)) = KPICards_key (sel d) then kpis d
                   else initial_kpis)\<rparr>)"
| "step opts (Settled k outcome) d =
     render opts (d\<lparr>cache := settled opts (k \<in> set (observed d)) k outcome (cache d)\<rparr>)"
| "step opts WindowFocus d =
     render opts
       (d\<lparr>cache := refetch_observed (refetchOnWindowFocus opts) opts (observed d) (cache d)\<rparr>)"
| "step opts Reconnect d =
     render opts
       (d\<lparr>cache := refetch_observed (refetchOnReconnect opts) opts (observed d) (cache d)\<rparr>)"
| "step opts (Elapse n) d = d\<lparr>cache := (cache d)\<lparr>now := now (cache d) + n\<rparr>\<rparr>"

fun run :: "query_options \<Rightarrow> event list \<Rightarrow> dashboard \<Rightarrow> dashboard" where
  "run opts [] d = d"
| "run opts (e # es) d = run opts es (step opts e d)"

text \<open>What the five components show.\<close>

record view =
  kpi_cards :: "js_error + card list"
  trend :: "(string \<times> chart_point list option) panel"
  swot :: "(string list \<times> string list \<times> string list \<times> string list) panel"
  insights_panel :: "(string \<times> string list option) panel"
  recommended :: "string list panel"

definition dashboard_view :: "dashboard \<Rightarrow> view" where
  "dashboard_view d =
     (let ind = selectedIndustry (sel d);
          com = selectedCompany (sel d);
          forecastQ = useQuery (cache d) (TrendChart_queryKey ind com);
          swotQ = useQuery (cache d) (SWOTMatrix_queryKey ind com);
          insightsQ = useQuery (cache d)
                        (AISummary_insights_queryKey ind com (market_of (cache d) ind com));
          growthQ = useQuery (cache d) (StrategicRecommendations_queryKey ind com)
      in \<lparr>kpi_cards = cards (kpis d),
          trend = TrendChart ind com (as_forecast (result forecastQ)) (isLoading forecastQ),
          swot = SWOTMatrix ind com (as_strategy (result swotQ)) (isLoading swotQ),
          insights_panel =
            AISummary ind com (as_insights (result insightsQ)) (isLoading insightsQ),
          recommended =
            StrategicRecommendations ind com (as_strategy (result growthQ)) (isLoading growthQ)\<rparr>)"

text \<open>The fetcher invocations that a transition added to the log.\<close>

definition invoked :: "dashboard \<Rightarrow> dashboard \<Rightarrow> query_key list" where
  "invoked before after = drop (length (fetches (cache before))) (fetches (cache after))"

text \<open>
  Modelled from the spec: the observers of the selection are notified on every change of
  it and not otherwise (section 4.1). In the repository the observers are the components
  that the page renders again when one of its two state cells gets a different value; the
  rendering library that decides this is not part of it. The number of notifications that
  one operation causes, from the selection before and after it.
\<close>

definition notifications :: "selection_state \<Rightarrow> selection_state \<Rightarrow> nat" where
  "notifications before after =
     (if selectedIndustry after = selectedIndustry before
         \<and> selectedCompany after = selectedCompany before then 0 else 1)"


section \<open>Invariants\<close>

text \<open>
  After a render the local state of \<^verbatim>\<open>KPICards\<close> is what its effect makes of the current
  market data, and the observed keys are the enabled ones.
\<close>

definition consistent :: "dashboard \<Rightarrow> bool" where
  "consistent d =
     (kpis d = KPICards_effect
                 (market_of (cache d) (selectedIndustry (sel d)) (selectedCompany (sel d)))
                 (selectedIndustry (sel d)) (selectedCompany (sel d)) (kpis d)
      \<and> observed d = enabled_keys (selectedIndustry (sel d)) (selectedCompany (sel d))
                       (market_of (cache d) (selectedIndustry (sel d)) (selectedCompany (sel d))))"

text \<open>Neither cell holds the empty string.\<close>

definition no_empty_string :: "selection_state \<Rightarrow> bool" where
  "no_empty_string s = (selectedIndustry s \<noteq> Some [] \<and> selectedCompany s \<noteq> Some [])"

section \<open>Scenarios\<close>

text \<open>
  Technology is selected and its market fetcher is rejected with HTTP status 500 each time
  it is invoked: the first invocation and the three retries.
\<close>

definition market_rejected :: event where
  "market_rejected =
     Settled (KPICards_queryKey (Some ''Technology'') None) (Inl (Api (HttpError 500)))"


text \<open>
  Technology is selected and its strategy fetcher for the SWOT panel has been rejected
  three times with HTTP status 500: the last retry is in flight.
\<close>

definition swot_rejected :: event where
  "swot_rejected =
     Settled (SWOTMatrix_queryKey (Some ''Technology'') None) (Inl (Api (HttpError 500)))"

definition technology_swot_retried :: dashboard where
  "technology_swot_retried =
     run Providers
       [User (IndustryChange ''Technology''), swot_rejected, swot_rejected, swot_rejected]
       initial_dashboard"

text \<open>A strategy response with one strength and nothing else.\<close>

definition strengths_only :: strategy_response where
  "strengths_only =
     \<lparr>content = Some \<lparr>strengths = Some [''a''], weaknesses = None, opportunities = None,
                       threats = None\<rparr>,
      recommendations = None\<rparr>"

text \<open>
  Technology is selected, its strategy fetch resolves, the network reconnects, and the
  fetch that the reconnect starts is rejected four times.
\<close>

definition swot_refetch_failed :: dashboard where
  "swot_refetch_failed =
     run Providers
       [User (IndustryChange ''Technology''),
        Settled (SWOTMatrix_queryKey (Some ''Technology'') None) (Inr (StrategyData strengths_only)),
        Reconnect,
        swot_rejected, swot_rejected, swot_rejected, swot_rejected]
       initial_dashboard"

text \<open>The market response of the spec's scenario.\<close>

definition technology_market :: market_data where
  "technology_market =
     \<lparr>metrics = Some \<lparr>growth_rate = JNumber (124 / 10), funding_volume = JNumber 500000000,
                       market_size = JNumber 900000000000\<rparr>\<rparr>"

text \<open>Technology is selected and its market fetch resolves.\<close>

definition technology_resolved :: dashboard where
  "technology_resolved =
     run Providers
       [User (IndustryChange ''Technology''),
        Settled (KPICards_queryKey (Some ''Technology'') None) (Inr (MarketData technology_market))]
       initial_dashboard"

text \<open>Technology has just been selected; every fetch is in flight.\<close>

definition technology_selected :: dashboard where
  "technology_selected = run Providers [User (IndustryChange ''Technology'')] initial_dashboard"

text \<open>The company Apple is selected and, before anything resolves, the industry Finance.\<close>

definition apple_then_finance :: "event list" where
  "apple_then_finance = [User (CompanyChange ''Apple''), User (IndustryChange ''Finance'')]"

text \<open>A market response for Apple.\<close>

definition apple_market :: market_data where
  "apple_market =
     \<lparr>metrics = Some \<lparr>growth_rate = JNumber 7, funding_volume = JNumber 2000000,
                       market_size = JNumber 3000000000\<rparr>\<rparr>"


text \<open>A forecast service that answers with two items, the second without a value.\<close>

definition two_item_forecast :: "forecast_params \<Rightarrow> api_error + forecast_response option" where
  "two_item_forecast params =
     Inr (Some \<lparr>forecast = Items (map Some
            [\<lparr>yhat = JNumber 5, item_value = JUndefined\<rparr>,
             \<lparr>yhat = JUndefined, item_value = JNull\<rparr>])\<rparr>)"

text \<open>A forecast service that fails.\<close>

definition failing_forecast :: "forecast_params \<Rightarrow> api_error + forecast_response option" where
  "failing_forecast params = Inl (HttpError 500)"

section \<open>Selection: mutual exclusion\<close>

lemma handle_exclusive: "exclusive (handle e s)"
  by (cases e)
    (simp_all add: exclusive_def handleIndustryChange_def handleCompanyChange_def
      clickIndustryButton_def clickCompanyButton_def onIndustrySelect_def onCompanySelect_def
      setSearchValue_def setSearchType_def Let_def)

lemma handle_all_exclusive: "exclusive s \<Longrightarrow> exclusive (handle_all es s)"
  by (induction es arbitrary: s) (simp_all add: handle_exclusive)

lemma initial_exclusive: "exclusive initial_selection"
  by (simp add: exclusive_def initial_selection_def)

text \<open>
  C4. After every selection operation at most one of industry and company is set, whatever
  the state before: a non-empty industry sets the industry and clears the company, a
  company whose trimmed value is non-empty sets the company (trimmed) and clears the
  industry, an empty value and both mode buttons clear both; and no state reached from the
  initial one by any sequence of operations has both set.
\<close>

theorem selection_mutual_exclusion:
  "(v \<noteq> [] \<longrightarrow> selectedIndustry (handleIndustryChange v s) = Some v
       \<and> selectedCompany (handleIndustryChange v s) = None)
   \<and> (trim v \<noteq> [] \<longrightarrow> selectedCompany (handleCompanyChange v s) = Some (trim v)
       \<and> selectedIndustry (handleCompanyChange v s) = None)
   \<and> selectedIndustry (handleIndustryChange [] s) = None
   \<and> selectedCompany (handleIndustryChange [] s) = None
   \<and> (trim v = [] \<longrightarrow> selectedIndustry (handleCompanyChange v s) = None
       \<and> selectedCompany (handleCompanyChange v s) = None)
   \<and> selectedIndustry (clickIndustryButton s) = None
   \<and> selectedCompany (clickIndustryButton s) = None
   \<and> selectedIndustry (clickCompanyButton s) = None
   \<and> selectedCompany (clickCompanyButton s) = None
   \<and> \<not> (selectedIndustry (handle e s) \<noteq> None \<and> selectedCompany (handle e s) \<noteq> None)
   \<and> \<not> (selectedIndustry (handle_all es initial_selection) \<noteq> None
        \<and> selectedCompany (handle_all es initial_selection) \<noteq> None)"
proof -
  have ops: "(v \<noteq> [] \<longrightarrow> selectedIndustry (handleIndustryChange v s) = Some v
       \<and> selectedCompany (handleIndustryChange v s) = None)
   \<and> (trim v \<noteq> [] \<longrightarrow> selectedCompany (handleCompanyChange v s) = Some (trim v)
       \<and> selectedIndustry (handleCompanyChange v s) = None)
   \<and> selectedIndustry (handleIndustryChange [] s) = None
   \<and> selectedCompany (handleIndustryChange [] s) = None
   \<and> (trim v = [] \<longrightarrow> selectedIndustry (handleCompanyChange v s) = None
       \<and> selectedCompany (handleCompanyChange v s) = None)"
    by (simp add: handleIndustryChange_def handleCompanyChange_def onIndustrySelect_def
        onCompanySelect_def setSearchValue_def Let_def)
  have buttons: "selectedIndustry (clickIndustryButton s) = None
   \<and> selectedCompany (clickIndustryButton s) = None
   \<and> selectedIndustry (clickCompanyButton s) = None
   \<and> selectedCompany (clickCompanyButton s) = None"
    by (simp add: clickIndustryButton_def clickCompanyButton_def onIndustrySelect_def
        onCompanySelect_def setSearchValue_def setSearchType_def)
  have one: "\<not> (selectedIndustry (handle e s) \<noteq> None \<and> selectedCompany (handle e s) \<noteq> None)"
    using handle_exclusive [of e s] by (auto simp: exclusive_def)
  have reach: "\<not> (selectedIndustry (handle_all es initial_selection) \<noteq> None
        \<and> selectedCompany (handle_all es initial_selection) \<noteq> None)"
    using handle_all_exclusive [OF initial_exclusive, of es] by (auto simp: exclusive_def)
  from ops buttons one reach show ?thesis by blast
qed

theorem selection_mutual_exclusion_witness:
  "selectedIndustry (handleIndustryChange ''Finance''
       (handleCompanyChange '' Apple '' initial_selection)) = Some ''Finance''
   \<and> selectedCompany (handleIndustryChange ''Finance''
       (handleCompanyChange '' Apple '' initial_selection)) = None
   \<and> selectedCompany (handleCompanyChange '' Apple '' initial_selection) = Some ''Apple''
   \<and> selectedIndustry (handleCompanyChange '' Apple '' initial_selection) = None
   \<and> selectedIndustry (handleCompanyChange ''  '' initial_selection) = None
   \<and> selectedCompany (handleCompanyChange ''  '' initial_selection) = None"
proof -
  have t1: "trim '' Apple '' = ''Apple''" by (simp add: trim_def white_space_def)
  have t2: "trim ''  '' = []" by (simp add: trim_def white_space_def)
  have f: "''Finance'' \<noteq> []" by simp
  show ?thesis
    using selection_mutual_exclusion
      [of "''Finance''" "handleCompanyChange '' Apple '' initial_selection"]
      selection_mutual_exclusion [of "'' Apple ''" initial_selection]
      selection_mutual_exclusion [of "''  ''" initial_selection]
      t1 t2 f
    by simp
qed

section \<open>KPI defaults\<close>











section \<open>The forecast fetcher\<close>

lemma map_items_shape:
  "map_items i xs = Inr ps \<Longrightarrow>
     length ps = length xs \<and> (\<forall>j<length ps. month (ps ! j) = i + j + 1)"
proof (induction i xs arbitrary: ps rule: map_items.induct)
  case (1 i)
  then show ?case by simp
next
  case (2 i rest)
  then show ?case by simp
next
  case (3 i item rest)
  then obtain qs where q: "map_items (Suc i) rest = Inr qs" and ps: "ps = to_point i item # qs"
    by (auto split: sum.splits)
  from "3.IH" [OF q] have len: "length qs = length rest"
    and mo: "\<forall>j<length qs. month (qs ! j) = Suc i + j + 1" by simp_all
  show ?case
  proof (intro conjI allI impI)
    show "length ps = length (Some item # rest)" using ps len by simp
  next
    fix j assume "j < length ps"
    then show "month (ps ! j) = i + j + 1"
      using ps mo by (cases j) (simp_all add: to_point_def)
  qed
qed

lemma map_items_all_present:
  "map_items i (map Some xs) = Inr (map (\<lambda>(j, item). to_point j item) (enumerate i xs))"
  by (induction xs arbitrary: i) simp_all

lemma forecast_try_shape:
  "forecast_try g ind com = Inr ps \<Longrightarrow>
     length ps \<le> 12 \<and> (\<forall>j<length ps. month (ps ! j) = j + 1)"
  using map_items_shape [of 0 _ ps]
  by (auto simp: forecast_try_def split: sum.splits option.splits forecast_field.splits)

lemma queryFn_resolves:
  "\<exists>ps. TrendChart_queryFn g ind com = Inr ps \<and> length ps \<le> 12
      \<and> (\<forall>j<length ps. month (ps ! j) = j + 1)"
proof (cases "forecast_try g ind com")
  case (Inl e)
  then show ?thesis by (simp add: TrendChart_queryFn_def)
next
  case (Inr ps)
  with forecast_try_shape [OF Inr] show ?thesis by (simp add: TrendChart_queryFn_def)
qed

lemma queryFn_on_error:
  "g (TrendChart_params ind com) = Inl e \<Longrightarrow> TrendChart_queryFn g ind com = Inr []"
  by (simp add: TrendChart_queryFn_def forecast_try_def)

lemma queryFn_on_success:
  "truthy_str ind \<or> truthy_str com \<Longrightarrow>
   g (TrendChart_params ind com) = Inr (Some r) \<Longrightarrow> forecast r = Items (map Some xs) \<Longrightarrow>
   TrendChart_queryFn g ind com =
     Inr (map (\<lambda>(j, item). to_point j item) (enumerate 0 (take 12 xs)))"
  by (auto simp: TrendChart_queryFn_def forecast_try_def map_items_all_present take_map)

lemma to_point_default:
  "(yhat item = JUndefined \<or> yhat item = JNull) \<Longrightarrow>
   (item_value item = JUndefined \<or> item_value item = JNull) \<Longrightarrow>
   point_value (to_point j item) = JNumber 0"
  by (auto simp: to_point_def js_or_def)

lemma settle_resolved:
  "entries s k = Some e \<Longrightarrow> status e = Loading \<Longrightarrow>
   \<exists>e'. entries (settle k (Inr p) s) k = Some e' \<and> status e' = Success \<and> data e' = Some p"
  by (simp add: settle_def resolve_def)

text \<open>
  C10. The forecast fetcher never rejects: whatever \<^verbatim>\<open>api.getForecast\<close> does, the
  \<^verbatim>\<open>queryFn\<close> of \<^verbatim>\<open>TrendChart\<close> resolves, to at most 12 points whose month is the index plus
  one; when the API call fails it resolves to the empty list; when the call succeeds with
  an array of items it resolves to the first 12 of them, each with the value
  \<^verbatim>\<open>yhat || value || 0\<close>, which is 0 when both are absent; and settling the forecast entry
  that is loading with the fetcher's outcome makes it Success, never Failure.
\<close>

theorem forecast_never_rejects:
  "\<exists>ps. TrendChart_queryFn g ind com = Inr ps
      \<and> length ps \<le> 12
      \<and> (\<forall>j<length ps. month (ps ! j) = j + 1)
      \<and> ((\<exists>e. g (TrendChart_params ind com) = Inl e) \<longrightarrow> ps = [])
      \<and> (\<forall>r xs. (truthy_str ind \<or> truthy_str com)
             \<and> g (TrendChart_params ind com) = Inr (Some r) \<and> forecast r = Items (map Some xs)
           \<longrightarrow> ps = map (\<lambda>(j, item). to_point j item) (enumerate 0 (take 12 xs)))
      \<and> (\<forall>j item. (yhat item = JUndefined \<or> yhat item = JNull)
             \<and> (item_value item = JUndefined \<or> item_value item = JNull)
           \<longrightarrow> point_value (to_point j item) = JNumber 0)
      \<and> (\<forall>s k e. entries s k = Some e \<and> status e = Loading
           \<longrightarrow> (\<exists>e'. entries (settle k (map_sum id ForecastData (TrendChart_queryFn g ind com)) s) k
                        = Some e'
                    \<and> status e' = Success \<and> data e' = Some (ForecastData ps)))"
proof -
  from queryFn_resolves [of g ind com] obtain ps where
    ps: "TrendChart_queryFn g ind com = Inr ps" "length ps \<le> 12"
      "\<forall>j<length ps. month (ps ! j) = j + 1"
    by blast
  have err: "(\<exists>e. g (TrendChart_params ind com) = Inl e) \<longrightarrow> ps = []"
    using ps(1) queryFn_on_error [of g ind com] by auto
  have ok: "\<forall>r xs. (truthy_str ind \<or> truthy_str com)
             \<and> g (TrendChart_params ind com) = Inr (Some r) \<and> forecast r = Items (map Some xs)
           \<longrightarrow> ps = map (\<lambda>(j, item). to_point j item) (enumerate 0 (take 12 xs))"
    using ps(1) queryFn_on_success [of ind com g] by auto
  have dflt: "\<forall>j item. (yhat item = JUndefined \<or> yhat item = JNull)
             \<and> (item_value item = JUndefined \<or> item_value item = JNull)
           \<longrightarrow> point_value (to_point j item) = JNumber 0"
    using to_point_default by blast
  have st: "\<forall>s k e. entries s k = Some e \<and> status e = Loading
           \<longrightarrow> (\<exists>e'. entries (settle k (map_sum id ForecastData (TrendChart_queryFn g ind com)) s) k
                        = Some e'
                    \<and> status e' = Success \<and> data e' = Some (ForecastData ps))"
    using settle_resolved [of _ _ _ "ForecastData ps"] by (simp add: ps(1))
  from ps err ok dflt st show ?thesis by blast
qed

theorem forecast_never_rejects_witness:
  "TrendChart_queryFn failing_forecast (Some ''Technology'') None = Inr []
   \<and> TrendChart_queryFn two_item_forecast (Some ''Technology'') None
       = Inr [\<lparr>month = 1, point_value = JNumber 5\<rparr>, \<lparr>month = 2, point_value = JNumber 0\<rparr>]"
proof -
  have f: "\<exists>e. failing_forecast (TrendChart_params (Some ''Technology'') None) = Inl e"
    by (simp add: failing_forecast_def)
  have a: "TrendChart_queryFn failing_forecast (Some ''Technology'') None = Inr []"
    using forecast_never_rejects [of failing_forecast "Some ''Technology''" None] f by auto
  have t: "truthy_str (Some ''Technology'') \<or> truthy_str None" by (simp add: truthy_str_def)
  have g: "two_item_forecast (TrendChart_params (Some ''Technology'') None)
       = Inr (Some \<lparr>forecast = Items (map Some
            [\<lparr>yhat = JNumber 5, item_value = JUndefined\<rparr>,
             \<lparr>yhat = JUndefined, item_value = JNull\<rparr>])\<rparr>)"
    by (simp add: two_item_forecast_def)
  from forecast_never_rejects [of two_item_forecast "Some ''Technology''" None]
  obtain ps where ps: "TrendChart_queryFn two_item_forecast (Some ''Technology'') None = Inr ps"
    and all: "\<forall>r xs. (truthy_str (Some ''Technology'') \<or> truthy_str None)
             \<and> two_item_forecast (TrendChart_params (Some ''Technology'') None) = Inr (Some r)
             \<and> forecast r = Items (map Some xs)
           \<longrightarrow> ps = map (\<lambda>(j, item). to_point j item) (enumerate 0 (take 12 xs))"
    by blast
  have r: "forecast \<lparr>forecast = Items (map Some
            [\<lparr>yhat = JNumber 5, item_value = JUndefined\<rparr>,
             \<lparr>yhat = JUndefined, item_value = JNull\<rparr>])\<rparr>
        = Items (map Some [\<lparr>yhat = JNumber 5, item_value = JUndefined\<rparr>,
                           \<lparr>yhat = JUndefined, item_value = JNull\<rparr>])"
    by simp
  have "ps = map (\<lambda>(j, item). to_point j item)
                (enumerate 0 (take 12 [\<lparr>yhat = JNumber 5, item_value = JUndefined\<rparr>,
                                       \<lparr>yhat = JUndefined, item_value = JNull\<rparr>]))"
    using all t g r by blast
  then have "ps = [\<lparr>month = 1, point_value = JNumber 5\<rparr>, \<lparr>month = 2, point_value = JNumber 0\<rparr>]"
    by (simp add: to_point_def js_or_def)
  with ps a show ?thesis by simp
qed

section \<open>Keys, store and renders: auxiliary facts\<close>

lemma part_eq_iff: "part_eq a b = (a = b)"
  by (cases a; cases b) auto

lemma key_eq_iff: "key_eq a b = (a = b)"
  by (induction a b rule: key_eq.induct) (simp_all add: part_eq_iff)

lemma key_of_inject: "(key_of a = key_of b) = (a = b)"
  by (cases a; cases b) (simp_all add: key_of_def)

subsection \<open>Fetching and subscribing leave values alone\<close>

lemma fetch_result: "result (useQuery (fetch k s) k') = result (useQuery s k')"
  by (simp add: useQuery_def fetch_def split: option.splits)

lemma fetch_other: "k' \<noteq> k \<Longrightarrow> useQuery (fetch k s) k' = useQuery s k'"
  by (simp add: useQuery_def fetch_def)

lemma fetch_entries_other: "k' \<noteq> k \<Longrightarrow> entries (fetch k s) k' = entries s k'"
  by (simp add: fetch_def)


lemma fetch_fetches: "fetches (fetch k s) = fetches s @ [k]"
  by (simp add: fetch_def)

lemma fetch_loading: "\<exists>e. entries (fetch k s) k = Some e \<and> status e = Loading"
  by (simp add: fetch_def split: option.splits)

lemma subscribe_cases: "subscribe opts k s = s \<or> subscribe opts k s = fetch k s"
  by (simp add: subscribe_def split: option.splits)

lemma subscribe_result: "result (useQuery (subscribe opts k s) k') = result (useQuery s k')"
  using subscribe_cases [of opts k s] by (auto simp: fetch_result)

lemma subscribe_all_result:
  "result (useQuery (subscribe_all opts ks s) k') = result (useQuery s k')"
  by (induction ks arbitrary: s) (simp_all add: subscribe_result)

lemma subscribe_all_market: "market_of (subscribe_all opts ks s) i c = market_of s i c"
  by (simp add: market_of_def subscribe_all_result)

lemma subscribe_dedup:
  "fetches (subscribe opts k (subscribe opts k s)) = fetches (subscribe opts k s)"
  by (auto simp: subscribe_def fetch_def split: option.splits)

lemma settle_other: "k' \<noteq> k \<Longrightarrow> useQuery (settle k outcome s) k' = useQuery s k'"
  by (auto simp: settle_def resolve_def reject_def useQuery_def split: sum.splits option.splits)

lemma settle_fetches: "fetches (settle k outcome s) = fetches s"
  by (auto simp: settle_def resolve_def reject_def split: sum.splits option.splits)


lemma retry_fetch_result: "result (useQuery (retry_fetch k s) k') = result (useQuery s k')"
  by (cases "entries s k") (simp_all add: useQuery_def retry_fetch_def)

lemma retry_fetch_other: "k' \<noteq> k \<Longrightarrow> useQuery (retry_fetch k s) k' = useQuery s k'"
  by (simp add: useQuery_def retry_fetch_def)

lemma retry_fetch_fetches: "fetches (retry_fetch k s) = fetches s @ [k]"
  by (simp add: retry_fetch_def)

lemma settled_cases:
  "settled opts w k outcome s = settle k outcome s
   \<or> (w \<and> retries_left opts s k \<and> (\<exists>err. outcome = Inl err)
       \<and> settled opts w k outcome s = retry_fetch k s)"
  by (cases outcome) (simp_all add: settled_def)

lemma settled_unwatched: "settled opts False k outcome s = settle k outcome s"
  by (cases outcome) (simp_all add: settled_def)

lemma settled_other: "k' \<noteq> k \<Longrightarrow> useQuery (settled opts w k outcome s) k' = useQuery s k'"
  using settled_cases [of opts w k outcome s] by (auto simp: settle_other retry_fetch_other)


lemma settled_fetches:
  "fetches (settled opts w k outcome s) = fetches s
   \<or> (w \<and> fetches (settled opts w k outcome s) = fetches s @ [k])"
  using settled_cases [of opts w k outcome s] by (auto simp: settle_fetches retry_fetch_fetches)

subsection \<open>Renders keep the dashboard consistent\<close>

lemma effect_idem:
  "KPICards_effect md i c (KPICards_effect md i c k0) = KPICards_effect md i c k0"
  by (simp add: KPICards_effect_def split: option.splits)

lemma render_consistent: "consistent (render opts d)"
  by (simp add: consistent_def render_def Let_def subscribe_all_market effect_idem)

lemma consistent_render: "consistent d \<Longrightarrow> render opts d = d"
  by (simp add: consistent_def render_def Let_def)

lemma step_consistent: "consistent d \<Longrightarrow> consistent (step opts ev d)"
proof (cases ev)
  case (Elapse n)
  assume "consistent d"
  then show ?thesis using Elapse
    by (simp add: consistent_def market_of_def useQuery_def)
qed (simp_all add: render_consistent)

lemma run_consistent: "consistent d \<Longrightarrow> consistent (run opts es d)"
  by (induction es arbitrary: d) (simp_all add: step_consistent)

lemma initial_consistent: "consistent initial_dashboard"
  by (simp add: consistent_def initial_dashboard_def initial_selection_def empty_store_def
      market_of_def useQuery_def KPICards_effect_def optional_metrics_def truthy_str_def
      enabled_keys_def KPICards_enabled_def TrendChart_enabled_def SWOTMatrix_enabled_def
      AISummary_market_enabled_def AISummary_insights_enabled_def
      StrategicRecommendations_enabled_def or_str_def)

lemma reachable_consistent: "consistent (run opts es initial_dashboard)"
  by (rule run_consistent [OF initial_consistent])

lemma market_key_inject:
  "(KPICards_queryKey i1 c1 = AISummary_market_queryKey i c) = (i1 = i \<and> c1 = c)"
  by (simp add: KPICards_queryKey_def AISummary_market_queryKey_def key_of_inject)

lemma settle_market_other:
  "k \<noteq> AISummary_market_queryKey i c \<Longrightarrow> market_of (settle k outcome s) i c = market_of s i c"
  by (simp add: market_of_def settle_other)

lemma settled_market_other:
  "k \<noteq> AISummary_market_queryKey i c \<Longrightarrow>
   market_of (settled opts w k outcome s) i c = market_of s i c"
  by (simp add: market_of_def settled_other)

lemma step_settle_other:
  assumes "consistent d"
    and "k \<noteq> AISummary_market_queryKey (selectedIndustry (sel d)) (selectedCompany (sel d))"
  shows "step opts (Settled k outcome) d
         = d\<lparr>cache := settled opts (k \<in> set (observed d)) k outcome (cache d)\<rparr>"
proof -
  have "consistent (d\<lparr>cache := settled opts (k \<in> set (observed d)) k outcome (cache d)\<rparr>)"
    using assms by (simp add: consistent_def settled_market_other)
  then show ?thesis by (simp add: consistent_render)
qed


lemma view_settle_other:
  assumes "k \<noteq> AISummary_market_queryKey (selectedIndustry (sel d)) (selectedCompany (sel d))"
    and "k \<noteq> TrendChart_queryKey (selectedIndustry (sel d)) (selectedCompany (sel d))"
    and "k \<noteq> SWOTMatrix_queryKey (selectedIndustry (sel d)) (selectedCompany (sel d))"
    and "k \<noteq> StrategicRecommendations_queryKey (selectedIndustry (sel d)) (selectedCompany (sel d))"
    and "k \<noteq> AISummary_insights_queryKey (selectedIndustry (sel d)) (selectedCompany (sel d))
           (market_of (cache d) (selectedIndustry (sel d)) (selectedCompany (sel d)))"
  shows "dashboard_view (d\<lparr>cache := settled opts w k outcome (cache d)\<rparr>) = dashboard_view d"
  using assms by (simp add: dashboard_view_def Let_def settled_market_other settled_other)

lemma market_key_products:
  "KPICards_queryKey i1 c1 \<noteq> TrendChart_queryKey i c"
  "KPICards_queryKey i1 c1 \<noteq> SWOTMatrix_queryKey i c"
  "KPICards_queryKey i1 c1 \<noteq> StrategicRecommendations_queryKey i c"
  "KPICards_queryKey i1 c1 \<noteq> AISummary_insights_queryKey i c md"
  by (simp_all add: KPICards_queryKey_def TrendChart_queryKey_def SWOTMatrix_queryKey_def
      StrategicRecommendations_queryKey_def AISummary_insights_queryKey_def)

lemma sel_render: "sel (render opts d) = sel d"
  by (simp add: render_def Let_def)

subsection \<open>What a batch of subscriptions fetches\<close>

lemma subscribe_entries_other: "k' \<noteq> k \<Longrightarrow> entries (subscribe opts k s) k' = entries s k'"
  using subscribe_cases [of opts k s] by (auto simp: fetch_entries_other)

lemma subscribe_loading_kept:
  "entries s k' = Some e \<Longrightarrow> status e = Loading \<Longrightarrow>
   \<exists>e'. entries (subscribe opts k s) k' = Some e' \<and> status e' = Loading"
  by (cases "k' = k") (auto simp: subscribe_def fetch_def split: option.splits)

lemma subscribe_not_loading:
  "entries s k = Some e \<Longrightarrow> status e = Loading \<Longrightarrow> subscribe opts k s = s"
  by (simp add: subscribe_def)

lemma subscribe_all_fetches:
  "\<exists>zs. fetches (subscribe_all opts ks s) = fetches s @ zs
      \<and> set zs \<subseteq> set ks
      \<and> count_list zs k \<le> 1
      \<and> ((\<exists>e. entries s k = Some e \<and> status e = Loading) \<longrightarrow> count_list zs k = 0)"
proof (induction ks arbitrary: s)
  case Nil
  then show ?case by simp
next
  case (Cons a ks)
  let ?s = "subscribe opts a s"
  from Cons.IH [of ?s] obtain zs where
    zs: "fetches (subscribe_all opts ks ?s) = fetches ?s @ zs" "set zs \<subseteq> set ks"
      "count_list zs k \<le> 1"
      "(\<exists>e. entries ?s k = Some e \<and> status e = Loading) \<longrightarrow> count_list zs k = 0"
    by blast
  from subscribe_cases [of opts a s] show ?case
  proof
    assume same: "?s = s"
    then show ?thesis using zs by (intro exI [of _ zs]) auto
  next
    assume f: "?s = fetch a s"
    have load: "a = k \<Longrightarrow> count_list zs k = 0"
      using zs(4) fetch_loading [of a s] f by auto
    have nl: "(\<exists>e. entries s k = Some e \<and> status e = Loading) \<Longrightarrow> a \<noteq> k"
      using f subscribe_not_loading [of s k _ opts] fetch_fetches [of k s] by auto
    have keep: "(\<exists>e. entries s k = Some e \<and> status e = Loading) \<Longrightarrow> count_list zs k = 0"
      using zs(4) subscribe_loading_kept [of s k _ opts a] by blast
    show ?thesis
      using zs f load nl keep
      by (intro exI [of _ "a # zs"]) (auto simp: fetch_fetches)
  qed
qed

lemma render_invoked:
  "\<exists>zs. fetches (cache (render opts d)) = fetches (cache d) @ zs
     \<and> set zs \<subseteq> set (enabled_keys (selectedIndustry (sel d)) (selectedCompany (sel d))
                         (market_of (cache d) (selectedIndustry (sel d)) (selectedCompany (sel d))))
     \<and> count_list zs k \<le> 1"
proof -
  let ?w = "enabled_keys (selectedIndustry (sel d)) (selectedCompany (sel d))
                         (market_of (cache d) (selectedIndustry (sel d)) (selectedCompany (sel d)))"
  from subscribe_all_fetches [of opts "filter (\<lambda>k. k \<notin> set (observed d)) ?w" "cache d" k]
  obtain zs where "fetches (subscribe_all opts (filter (\<lambda>k. k \<notin> set (observed d)) ?w) (cache d))
       = fetches (cache d) @ zs" "set zs \<subseteq> set (filter (\<lambda>k. k \<notin> set (observed d)) ?w)"
      "count_list zs k \<le> 1" by blast
  then show ?thesis by (intro exI [of _ zs]) (auto simp: render_def Let_def)
qed

lemma invoked_user:
  "set (invoked d (step opts (User e) d))
     \<subseteq> set (enabled_keys (selectedIndustry (handle e (sel d))) (selectedCompany (handle e (sel d)))
                (market_of (cache d) (selectedIndustry (handle e (sel d)))
                   (selectedCompany (handle e (sel d)))))
   \<and> count_list (invoked d (step opts (User e) d)) k \<le> 1"
proof -
  let ?d = "d\<lparr>sel := handle e (sel d),
          kpis := (if KPICards_key (handle e (sel d)) = KPICards_key (sel d) then kpis d
                   else initial_kpis)\<rparr>"
  from render_invoked [of opts ?d k] show ?thesis
    by (auto simp: invoked_def)
qed

subsection \<open>Refetching on focus and on reconnect\<close>

lemma refetch_one_cases: "refetch_one flag opts k s = s \<or> refetch_one flag opts k s = fetch k s"
  by (simp add: refetch_one_def split: option.splits)


lemma refetch_one_result: "result (useQuery (refetch_one flag opts k s) k') = result (useQuery s k')"
  using refetch_one_cases [of flag opts k s] by (auto simp: fetch_result)

lemma refetch_observed_result:
  "result (useQuery (refetch_observed flag opts ks s) k') = result (useQuery s k')"
  by (induction ks arbitrary: s) (simp_all add: refetch_one_result)

lemma refetch_observed_market: "market_of (refetch_observed flag opts ks s) i c = market_of s i c"
  by (simp add: market_of_def refetch_observed_result)

lemma refetch_one_other: "k' \<noteq> k \<Longrightarrow> entries (refetch_one flag opts k s) k' = entries s k'"
  using refetch_one_cases [of flag opts k s] by (auto simp: fetch_entries_other)


lemma refetch_observed_fetches:
  "\<exists>zs. fetches (refetch_observed flag opts ks s) = fetches s @ zs \<and> set zs \<subseteq> set ks"
proof (induction ks arbitrary: s)
  case Nil
  then show ?case by simp
next
  case (Cons a ks)
  from Cons.IH [of "refetch_one flag opts a s"] obtain zs where
    zs: "fetches (refetch_observed flag opts ks (refetch_one flag opts a s))
           = fetches (refetch_one flag opts a s) @ zs" "set zs \<subseteq> set ks"
    by blast
  from refetch_one_cases [of flag opts a s] show ?case
  proof
    assume "refetch_one flag opts a s = s"
    then show ?thesis using zs by (intro exI [of _ zs]) auto
  next
    assume "refetch_one flag opts a s = fetch a s"
    then show ?thesis using zs by (intro exI [of _ "a # zs"]) (auto simp: fetch_fetches)
  qed
qed




lemma step_reconnect:
  assumes "consistent d"
  shows "step opts Reconnect d
         = d\<lparr>cache := refetch_observed (refetchOnReconnect opts) opts (observed d) (cache d)\<rparr>"
proof -
  have "consistent (d\<lparr>cache := refetch_observed (refetchOnReconnect opts) opts (observed d) (cache d)\<rparr>)"
    using assms by (simp add: consistent_def refetch_observed_market)
  then show ?thesis by (simp add: consistent_render)
qed


lemmas eval_defs =
  initial_dashboard_def initial_selection_def initial_kpis_def empty_store_def
  handleIndustryChange_def handleCompanyChange_def clickIndustryButton_def clickCompanyButton_def
  onIndustrySelect_def onCompanySelect_def setSearchValue_def setSearchType_def
  settled_def retries_left_def retry_fetch_def retries_def default_retry_def market_rejected_def
  render_def market_of_def useQuery_def enabled_keys_def KPICards_effect_def optional_metrics_def
  KPICards_enabled_def TrendChart_enabled_def SWOTMatrix_enabled_def AISummary_market_enabled_def
  AISummary_insights_enabled_def StrategicRecommendations_enabled_def
  KPICards_queryKey_def TrendChart_queryKey_def SWOTMatrix_queryKey_def
  AISummary_market_queryKey_def AISummary_insights_queryKey_def
  StrategicRecommendations_queryKey_def key_of_def truthy_str_def or_str_def
  subscribe_def fetch_def settle_def resolve_def reject_def refetch_one_def is_stale_def
  KPICards_key_def template_def Providers_def invoked_def js_or_def

lemma handle_idem: "handle e (handle e s) = handle e s"
  by (cases e)
    (simp_all add: handleIndustryChange_def handleCompanyChange_def clickIndustryButton_def
      clickCompanyButton_def onIndustrySelect_def onCompanySelect_def setSearchValue_def
      setSearchType_def Let_def)

subsection \<open>The empty selection\<close>

lemma none_disabled:
  "\<not> KPICards_enabled None None" "\<not> TrendChart_enabled None None"
  "\<not> SWOTMatrix_enabled None None" "\<not> AISummary_market_enabled None None"
  "\<not> AISummary_insights_enabled None None md" "\<not> StrategicRecommendations_enabled None None"
  by (simp_all add: KPICards_enabled_def TrendChart_enabled_def SWOTMatrix_enabled_def
      AISummary_market_enabled_def AISummary_insights_enabled_def
      StrategicRecommendations_enabled_def or_str_def truthy_str_def)

lemma none_keys: "enabled_keys None None md = []"
  by (simp add: enabled_keys_def none_disabled)

lemma idle_key_not_enabled: "AISummary_market_queryKey None None \<notin> set (enabled_keys i c md)"
  by (auto simp: enabled_keys_def KPICards_enabled_def AISummary_market_enabled_def
      KPICards_queryKey_def TrendChart_queryKey_def SWOTMatrix_queryKey_def
      AISummary_market_queryKey_def AISummary_insights_queryKey_def
      StrategicRecommendations_queryKey_def key_of_def or_str_def truthy_str_def
      split: option.splits if_splits)

lemma subscribe_all_untouched:
  "k \<notin> set ks \<Longrightarrow> entries (subscribe_all opts ks s) k = entries s k"
  by (induction ks arbitrary: s) (auto simp: subscribe_entries_other)

lemma settle_none: "entries s k = None \<Longrightarrow> entries (settle k' outcome s) k = None"
  by (auto simp: settle_def resolve_def reject_def split: sum.splits option.splits)

lemma settled_none: "entries s k = None \<Longrightarrow> entries (settled opts w k' outcome s) k = None"
  using settled_cases [of opts w k' outcome s]
  by (auto simp: settle_none retry_fetch_def)

lemma refetch_observed_none:
  "entries s k = None \<Longrightarrow> entries (refetch_observed flag opts ks s) k = None"
proof (induction ks arbitrary: s)
  case Nil
  then show ?case by simp
next
  case (Cons a ks)
  have "entries (refetch_one flag opts a s) k = None"
  proof (cases "a = k")
    case True
    then show ?thesis using Cons.prems by (simp add: refetch_one_def)
  next
    case False
    then show ?thesis using Cons.prems refetch_one_other [of k a flag opts s] by simp
  qed
  then show ?case using Cons.IH by simp
qed

lemma render_idle_free:
  assumes "entries (cache d) (AISummary_market_queryKey None None) = None"
  shows "entries (cache (render opts d)) (AISummary_market_queryKey None None) = None"
proof -
  have "AISummary_market_queryKey None None
        \<notin> set (filter (\<lambda>k. k \<notin> set (observed d))
                 (enabled_keys (selectedIndustry (sel d)) (selectedCompany (sel d))
                   (market_of (cache d) (selectedIndustry (sel d)) (selectedCompany (sel d)))))"
    using idle_key_not_enabled by simp
  from subscribe_all_untouched [OF this] show ?thesis
    using assms by (simp add: render_def Let_def)
qed

lemma step_idle_free:
  assumes "entries (cache d) (AISummary_market_queryKey None None) = None"
  shows "entries (cache (step opts ev d)) (AISummary_market_queryKey None None) = None"
proof (cases ev)
  case (User e)
  then show ?thesis using assms by (simp add: render_idle_free)
next
  case (Settled k outcome)
  then show ?thesis using assms by (simp add: render_idle_free settled_none)
next
  case WindowFocus
  then show ?thesis using assms by (simp add: render_idle_free refetch_observed_none)
next
  case Reconnect
  then show ?thesis using assms by (simp add: render_idle_free refetch_observed_none)
next
  case (Elapse n)
  then show ?thesis using assms by simp
qed

lemma run_idle_free:
  "entries (cache d) (AISummary_market_queryKey None None) = None \<Longrightarrow>
   entries (cache (run opts es d)) (AISummary_market_queryKey None None) = None"
  by (induction es arbitrary: d) (simp_all add: step_idle_free)

lemma reachable_idle_free:
  "entries (cache (run opts es initial_dashboard)) (AISummary_market_queryKey None None) = None"
  by (rule run_idle_free) (simp add: initial_dashboard_def empty_store_def)

lemma reachable_empty_kpis:
  assumes "selectedIndustry (sel (run opts es initial_dashboard)) = None"
    and "selectedCompany (sel (run opts es initial_dashboard)) = None"
  shows "kpis (run opts es initial_dashboard) = initial_kpis"
proof -
  let ?d = "run opts es initial_dashboard"
  have "market_of (cache ?d) None None = None"
    using reachable_idle_free [of opts es] by (simp add: market_of_def useQuery_def)
  moreover have "kpis ?d = KPICards_effect (market_of (cache ?d) None None) None None (kpis ?d)"
    using reachable_consistent [of opts es] assms by (simp add: consistent_def)
  ultimately show ?thesis
    by (simp add: KPICards_effect_def optional_metrics_def truthy_str_def)
qed

lemma zero_cards:
  "cards initial_kpis =
     Inr [\<lparr>label = ''Growth Rate'', shown = ([], Fixed 0 1, ''%'')\<rparr>,
          \<lparr>label = ''Funding Volume'', shown = (''$'', Fixed 0 1, ''M'')\<rparr>,
          \<lparr>label = ''Market Size'', shown = (''$'', Fixed 0 1, ''B'')\<rparr>]"
  by (simp add: cards_def initial_kpis_def)

lemma handle_no_empty: "no_empty_string (handle e s)"
  by (cases e)
    (simp_all add: no_empty_string_def handleIndustryChange_def handleCompanyChange_def
      clickIndustryButton_def clickCompanyButton_def onIndustrySelect_def onCompanySelect_def
      setSearchValue_def setSearchType_def Let_def)

lemma handle_all_no_empty: "no_empty_string s \<Longrightarrow> no_empty_string (handle_all es s)"
  by (induction es arbitrary: s) (simp_all add: handle_no_empty)



lemma render_market: "market_of (cache (render opts d)) i c = market_of (cache d) i c"
  by (simp add: render_def Let_def subscribe_all_market)


lemma step_focus_gen:
  assumes "consistent d"
  shows "step opts WindowFocus d
         = d\<lparr>cache := refetch_observed (refetchOnWindowFocus opts) opts (observed d) (cache d)\<rparr>"
proof -
  have "consistent (d\<lparr>cache := refetch_observed (refetchOnWindowFocus opts) opts (observed d) (cache d)\<rparr>)"
    using assms by (simp add: consistent_def refetch_observed_market)
  then show ?thesis by (simp add: consistent_render)
qed

lemma invoked_settled:
  assumes "consistent d"
  shows "set (invoked d (step opts (Settled k outcome) d))
     \<subseteq> set (enabled_keys (selectedIndustry (sel d)) (selectedCompany (sel d))
               (market_of (cache (step opts (Settled k outcome) d))
                  (selectedIndustry (sel d)) (selectedCompany (sel d))))"
proof -
  let ?i = "selectedIndustry (sel d)" and ?c = "selectedCompany (sel d)"
  let ?s = "settled opts (k \<in> set (observed d)) k outcome (cache d)"
  let ?d = "d\<lparr>cache := ?s\<rparr>"
  have obs: "observed d = enabled_keys ?i ?c (market_of (cache d) ?i ?c)"
    using assms by (simp add: consistent_def)
  from render_invoked [of opts ?d k] obtain zs where
    zs: "fetches (cache (render opts ?d)) = fetches ?s @ zs"
      "set zs \<subseteq> set (enabled_keys ?i ?c (market_of ?s ?i ?c))"
    by auto
  have m: "market_of (cache (step opts (Settled k outcome) d)) ?i ?c = market_of ?s ?i ?c"
    by (simp add: render_market)
  from settled_cases [of opts "k \<in> set (observed d)" k outcome "cache d"] show ?thesis
  proof
    assume "?s = settle k outcome (cache d)"
    then have "fetches ?s = fetches (cache d)" by (simp add: settle_fetches)
    then show ?thesis using zs m by (simp add: invoked_def)
  next
    assume r: "k \<in> set (observed d) \<and> retries_left opts (cache d) k
      \<and> (\<exists>err. outcome = Inl err) \<and> ?s = retry_fetch k (cache d)"
    then have eq: "?s = retry_fetch k (cache d)" and o: "k \<in> set (observed d)" by blast+
    have f: "fetches ?s = fetches (cache d) @ [k]"
      unfolding eq by (simp add: retry_fetch_fetches)
    have "market_of ?s ?i ?c = market_of (cache d) ?i ?c"
      unfolding eq by (simp add: market_of_def retry_fetch_result)
    then have "k \<in> set (enabled_keys ?i ?c (market_of ?s ?i ?c))" using o obs by simp
    then show ?thesis using zs m f by (simp add: invoked_def)
  qed
qed

lemma invoked_user_after:
  "set (invoked d (step opts (User e) d))
     \<subseteq> set (enabled_keys (selectedIndustry (sel (step opts (User e) d)))
               (selectedCompany (sel (step opts (User e) d)))
               (market_of (cache (step opts (User e) d))
                  (selectedIndustry (sel (step opts (User e) d)))
                  (selectedCompany (sel (step opts (User e) d)))))"
  using invoked_user [of d opts e] by (simp add: sel_render render_market)

lemma invoked_refetch:
  assumes "consistent d" and "ev = WindowFocus \<or> ev = Reconnect"
  shows "set (invoked d (step opts ev d))
     \<subseteq> set (enabled_keys (selectedIndustry (sel (step opts ev d)))
               (selectedCompany (sel (step opts ev d)))
               (market_of (cache (step opts ev d))
                  (selectedIndustry (sel (step opts ev d)))
                  (selectedCompany (sel (step opts ev d)))))"
proof -
  have obs: "observed d = enabled_keys (selectedIndustry (sel d)) (selectedCompany (sel d))
       (market_of (cache d) (selectedIndustry (sel d)) (selectedCompany (sel d)))"
    using assms(1) by (simp add: consistent_def)
  from assms(2) show ?thesis
  proof
    assume ev: "ev = WindowFocus"
    from refetch_observed_fetches [of "refetchOnWindowFocus opts" opts "observed d" "cache d"]
    obtain zs where "fetches (refetch_observed (refetchOnWindowFocus opts) opts (observed d) (cache d))
        = fetches (cache d) @ zs" "set zs \<subseteq> set (observed d)" by blast
    then show ?thesis
      using obs unfolding ev step_focus_gen [OF assms(1)]
      by (simp add: invoked_def refetch_observed_market)
  next
    assume ev: "ev = Reconnect"
    from refetch_observed_fetches [of "refetchOnReconnect opts" opts "observed d" "cache d"]
    obtain zs where "fetches (refetch_observed (refetchOnReconnect opts) opts (observed d) (cache d))
        = fetches (cache d) @ zs" "set zs \<subseteq> set (observed d)" by blast
    then show ?thesis
      using obs unfolding ev step_reconnect [OF assms(1)]
      by (simp add: invoked_def refetch_observed_market)
  qed
qed

lemma invoked_enabled:
  assumes "consistent d"
  shows "set (invoked d (step opts ev d))
     \<subseteq> set (enabled_keys (selectedIndustry (sel (step opts ev d)))
               (selectedCompany (sel (step opts ev d)))
               (market_of (cache (step opts ev d))
                  (selectedIndustry (sel (step opts ev d)))
                  (selectedCompany (sel (step opts ev d)))))"
proof (cases ev)
  case (User e)
  then show ?thesis using invoked_user_after [of d opts e] by simp
next
  case (Settled k outcome)
  then show ?thesis using invoked_settled [OF assms, of opts k outcome] by (simp add: sel_render)
next
  case WindowFocus
  then show ?thesis using invoked_refetch [OF assms, of ev opts] by simp
next
  case Reconnect
  then show ?thesis using invoked_refetch [OF assms, of ev opts] by simp
next
  case (Elapse n)
  then show ?thesis by (simp add: invoked_def)
qed

subsection \<open>A failing strategy fetch\<close>

lemma swot_key_products:
  "SWOTMatrix_queryKey i c \<noteq> AISummary_market_queryKey i' c'"
  "SWOTMatrix_queryKey i c \<noteq> AISummary_insights_queryKey i' c' md"
  by (simp_all add: SWOTMatrix_queryKey_def AISummary_market_queryKey_def
      AISummary_insights_queryKey_def)

lemma swot_failure:
  assumes "consistent d"
    and "entries (cache d) (SWOTMatrix_queryKey (selectedIndustry (sel d)) (selectedCompany (sel d)))
           = Some x"
    and "status x = Loading" and "retries opts \<le> failureCount x"
  shows "map_option status
           (entries (cache (step opts (Settled (SWOTMatrix_queryKey (selectedIndustry (sel d))
                                   (selectedCompany (sel d))) (Inl err)) d))
              (SWOTMatrix_queryKey (selectedIndustry (sel d)) (selectedCompany (sel d))))
         = Some Failure"
    and "swot (dashboard_view
            (step opts (Settled (SWOTMatrix_queryKey (selectedIndustry (sel d))
                                   (selectedCompany (sel d))) (Inl err)) d))
          = SWOTMatrix (selectedIndustry (sel d)) (selectedCompany (sel d))
              (as_strategy (data x)) False"
    and "insights_panel (dashboard_view
            (step opts (Settled (SWOTMatrix_queryKey (selectedIndustry (sel d))
                                   (selectedCompany (sel d))) (Inl err)) d))
          = insights_panel (dashboard_view d)"
proof -
  let ?k = "SWOTMatrix_queryKey (selectedIndustry (sel d)) (selectedCompany (sel d))"
  let ?s = "settled opts (?k \<in> set (observed d)) ?k (Inl err) (cache d)"
  have st: "step opts (Settled ?k (Inl err)) d = d\<lparr>cache := ?s\<rparr>"
    by (rule step_settle_other [OF assms(1) swot_key_products(1)])
  have s: "?s = reject ?k err (cache d)"
    using assms(2-4) by (simp add: settled_def retries_left_def settle_def)
  have q: "useQuery ?s ?k = \<lparr>result = data x, isLoading = False\<rparr>"
    using assms(2,3) unfolding s by (simp add: reject_def useQuery_def)
  show "map_option status (entries (cache (step opts (Settled ?k (Inl err)) d)) ?k) = Some Failure"
    using assms(2,3) unfolding st s by (simp add: reject_def)
  show "swot (dashboard_view (step opts (Settled ?k (Inl err)) d))
          = SWOTMatrix (selectedIndustry (sel d)) (selectedCompany (sel d))
              (as_strategy (data x)) False"
    unfolding st by (simp add: dashboard_view_def Let_def q)
  show "insights_panel (dashboard_view (step opts (Settled ?k (Inl err)) d))
          = insights_panel (dashboard_view d)"
    unfolding st
    by (simp add: dashboard_view_def Let_def settled_market_other [OF swot_key_products(1)]
        settled_other [OF swot_key_products(2) [symmetric]])
qed

lemma empty_quadrants:
  "truthy_str ind \<or> truthy_str com \<Longrightarrow> SWOTMatrix ind com None False = Shown ([], [], [], [])"
  by (auto simp: SWOTMatrix_def swotData_def or_empty_def)

lemma run_snoc: "run opts (es @ [ev]) d = step opts ev (run opts es d)"
  by (induction es arbitrary: d) simp_all









subsection \<open>The cards of a resolved market fetch\<close>

text \<open>
  The spec's scenario: growth rate 12.4, funding volume 500000000 and market size
  900000000000 are shown as 12.4 percent, 500.0 millions and 900.0 billions.
\<close>

lemma technology_cards:
  "kpi_cards (dashboard_view technology_resolved)
     = Inr [\<lparr>label = ''Growth Rate'', shown = ([], Fixed (124 / 10) 1, ''%'')\<rparr>,
            \<lparr>label = ''Funding Volume'', shown = (''$'', Fixed 500 1, ''M'')\<rparr>,
            \<lparr>label = ''Market Size'', shown = (''$'', Fixed 900 1, ''B'')\<rparr>]"
  by (simp add: technology_resolved_def technology_market_def dashboard_view_def cards_def
      eval_defs Let_def)

section \<open>Stale-key guard\<close>

text \<open>
  C1. Stale-key guard. In every state the dashboard can reach, whatever selection S2 is
  current, the settlement (resolution or rejection) of the market-metrics fetch issued for
  any other selection S1 changes nothing of what the five components show: it is applied
  to the entry of S1's key, which no component of S2 reads. This covers the switch from S1
  to S2 before S1's fetch resolves.
\<close>

theorem stale_key_guard:
  assumes "(i1, c1) \<noteq> (selectedIndustry (sel (run opts es initial_dashboard)),
                        selectedCompany (sel (run opts es initial_dashboard)))"
  shows "dashboard_view (step opts (Settled (KPICards_queryKey i1 c1) outcome)
                           (run opts es initial_dashboard))
         = dashboard_view (run opts es initial_dashboard)"
proof -
  let ?d = "run opts es initial_dashboard"
  let ?k = "KPICards_queryKey i1 c1"
  have ne: "?k \<noteq> AISummary_market_queryKey (selectedIndustry (sel ?d)) (selectedCompany (sel ?d))"
    using assms by (simp add: market_key_inject)
  have "step opts (Settled ?k outcome) ?d
          = ?d\<lparr>cache := settled opts (?k \<in> set (observed ?d)) ?k outcome (cache ?d)\<rparr>"
    by (rule step_settle_other [OF reachable_consistent ne])
  moreover have "dashboard_view
      (?d\<lparr>cache := settled opts (?k \<in> set (observed ?d)) ?k outcome (cache ?d)\<rparr>)
        = dashboard_view ?d"
    by (rule view_settle_other [OF ne market_key_products])
  ultimately show ?thesis by simp
qed

theorem stale_key_guard_witness:
  "(None, Some ''Apple'')
     \<noteq> (selectedIndustry (sel (run Providers apple_then_finance initial_dashboard)),
         selectedCompany (sel (run Providers apple_then_finance initial_dashboard)))
   \<and> dashboard_view
         (step Providers
            (Settled (KPICards_queryKey None (Some ''Apple'')) (Inr (MarketData apple_market)))
            (run Providers apple_then_finance initial_dashboard))
       = dashboard_view (run Providers apple_then_finance initial_dashboard)
   \<and> kpi_cards (dashboard_view (run Providers apple_then_finance initial_dashboard))
       = cards initial_kpis"
proof -
  have s: "selectedIndustry (sel (run Providers apple_then_finance initial_dashboard))
             = Some ''Finance''
           \<and> selectedCompany (sel (run Providers apple_then_finance initial_dashboard)) = None"
    by (simp add: apple_then_finance_def sel_render initial_dashboard_def initial_selection_def
        handleIndustryChange_def handleCompanyChange_def onIndustrySelect_def
        onCompanySelect_def setSearchValue_def Let_def)
  then have h: "(None, Some ''Apple'')
     \<noteq> (selectedIndustry (sel (run Providers apple_then_finance initial_dashboard)),
         selectedCompany (sel (run Providers apple_then_finance initial_dashboard)))"
    by simp
  have k: "kpi_cards (dashboard_view (run Providers apple_then_finance initial_dashboard))
       = cards initial_kpis"
    by (simp add: apple_then_finance_def dashboard_view_def eval_defs trim_def white_space_def Let_def)
  from h stale_key_guard [OF h] k show ?thesis by simp
qed

section \<open>Refetching a failed query\<close>

lemma Providers_retries: "retries Providers = 3"
  by (simp add: retries_def Providers_def default_retry_def)






section \<open>Keys and deduplication\<close>

text \<open>
  C3. QueryKey equality is reflexive, symmetric and transitive; \<^verbatim>\<open>KPICards\<close> and
  \<^verbatim>\<open>AISummary\<close> derive equal market keys from the same selection, and \<^verbatim>\<open>AISummary\<close> derives
  equal insights keys from the same selection and the same metrics; subscribing a second
  time with an equal key invokes no fetcher beyond what the first subscription invoked;
  and in one user action of the dashboard no key is fetched more than once, although two
  components subscribe to the market key.
\<close>

theorem query_key_dedup:
  "key_eq a a
   \<and> (key_eq a b \<longrightarrow> key_eq b a)
   \<and> (key_eq a b \<and> key_eq b c \<longrightarrow> key_eq a c)
   \<and> key_eq (KPICards_queryKey ind com) (AISummary_market_queryKey ind com)
   \<and> (optional_metrics md = optional_metrics md' \<longrightarrow>
        key_eq (AISummary_insights_queryKey ind com md) (AISummary_insights_queryKey ind com md'))
   \<and> (key_eq a b \<longrightarrow>
        fetches (subscribe opts b (subscribe opts a s)) = fetches (subscribe opts a s))
   \<and> count_list (invoked d (step opts (User e) d)) a \<le> 1"
proof -
  have eqv: "key_eq a a \<and> (key_eq a b \<longrightarrow> key_eq b a) \<and> (key_eq a b \<and> key_eq b c \<longrightarrow> key_eq a c)"
    by (simp add: key_eq_iff)
  have same: "key_eq (KPICards_queryKey ind com) (AISummary_market_queryKey ind com)"
    by (simp add: key_eq_iff KPICards_queryKey_def AISummary_market_queryKey_def)
  have ins: "optional_metrics md = optional_metrics md' \<longrightarrow>
        key_eq (AISummary_insights_queryKey ind com md) (AISummary_insights_queryKey ind com md')"
    by (simp add: key_eq_iff AISummary_insights_queryKey_def)
  have dedup: "key_eq a b \<longrightarrow>
        fetches (subscribe opts b (subscribe opts a s)) = fetches (subscribe opts a s)"
    by (simp add: key_eq_iff subscribe_dedup)
  have once: "count_list (invoked d (step opts (User e) d)) a \<le> 1"
    using invoked_user [of d opts e a] by simp
  from eqv same ins dedup once show ?thesis by blast
qed

theorem query_key_dedup_witness:
  "key_eq (KPICards_queryKey (Some ''Technology'') None)
          (AISummary_market_queryKey (Some ''Technology'') None)
   \<and> key_eq (AISummary_market_queryKey (Some ''Technology'') None)
            (KPICards_queryKey (Some ''Technology'') None)
   \<and> fetches (subscribe Providers (AISummary_market_queryKey (Some ''Technology'') None)
               (subscribe Providers (KPICards_queryKey (Some ''Technology'') None) empty_store))
       = [KPICards_queryKey (Some ''Technology'') None]
   \<and> count_list (invoked initial_dashboard technology_selected)
        (KPICards_queryKey (Some ''Technology'') None) = 1"
proof -
  have one: "fetches (subscribe Providers (KPICards_queryKey (Some ''Technology'') None) empty_store)
       = [KPICards_queryKey (Some ''Technology'') None]"
    by (simp add: subscribe_def fetch_def empty_store_def)
  have ge: "KPICards_queryKey (Some ''Technology'') None
             \<in> set (invoked initial_dashboard technology_selected)"
    by (simp add: technology_selected_def eval_defs Let_def)
  have st: "technology_selected
              = step Providers (User (IndustryChange ''Technology'')) initial_dashboard"
    by (simp add: technology_selected_def)
  have le: "count_list (invoked initial_dashboard technology_selected)
        (KPICards_queryKey (Some ''Technology'') None) \<le> 1"
    using query_key_dedup [where a = "KPICards_queryKey (Some ''Technology'') None"
        and d = initial_dashboard and opts = Providers and e = "IndustryChange ''Technology''"]
    unfolding st by blast
  have "0 < count_list (invoked initial_dashboard technology_selected)
        (KPICards_queryKey (Some ''Technology'') None)"
    using ge count_list_0_iff [of "invoked initial_dashboard technology_selected"
        "KPICards_queryKey (Some ''Technology'') None"] by auto
  with le have cnt: "count_list (invoked initial_dashboard technology_selected)
        (KPICards_queryKey (Some ''Technology'') None) = 1" by simp
  show ?thesis
    using query_key_dedup [where a = "KPICards_queryKey (Some ''Technology'') None"
        and b = "AISummary_market_queryKey (Some ''Technology'') None"
        and ind = "Some ''Technology''" and com = None and opts = Providers
        and s = empty_store] one cnt
    by simp
qed

section \<open>Idempotent selection\<close>

text \<open>
  C8. Performing the same selection operation twice in succession: the second call leaves
  the whole selection state as the first left it and causes no notification, so the two
  calls cause at most one notification together, and exactly one when the first call
  changes the selection.
\<close>

theorem selection_idempotent:
  "handle e (handle e s) = handle e s
   \<and> notifications (handle e s) (handle e (handle e s)) = 0
   \<and> notifications s (handle e s) + notifications (handle e s) (handle e (handle e s)) \<le> 1
   \<and> ((selectedIndustry (handle e s) \<noteq> selectedIndustry s
        \<or> selectedCompany (handle e s) \<noteq> selectedCompany s) \<longrightarrow>
       notifications s (handle e s) + notifications (handle e s) (handle e (handle e s)) = 1)"
  by (simp add: handle_idem notifications_def)

theorem selection_idempotent_witness:
  "selectedIndustry (handle (IndustryChange ''Technology'') initial_selection)
     \<noteq> selectedIndustry initial_selection
   \<and> notifications initial_selection (handle (IndustryChange ''Technology'') initial_selection)
     + notifications (handle (IndustryChange ''Technology'') initial_selection)
         (handle (IndustryChange ''Technology'')
            (handle (IndustryChange ''Technology'') initial_selection)) = 1"
proof -
  have c: "selectedIndustry (handle (IndustryChange ''Technology'') initial_selection)
     \<noteq> selectedIndustry initial_selection"
    by (simp add: handleIndustryChange_def onIndustrySelect_def onCompanySelect_def
        setSearchValue_def initial_selection_def Let_def)
  from c selection_idempotent [of "IndustryChange ''Technology''" initial_selection]
  show ?thesis by blast
qed

section \<open>Failure locality\<close>

text \<open>
  C9, as the claim states it, fails: Technology is selected and its strategy fetch
  resolves with one strength; the network reconnects, which fetches the stale entry
  again; that fetch fails with HTTP status 500, retries included. The entry is in Failure
  and the SWOT panel still shows the strength: its quadrants are not all empty.
\<close>

theorem swot_refetch_failure_counterexample:
  "map_option status (entries (cache swot_refetch_failed)
     (SWOTMatrix_queryKey (Some ''Technology'') None)) = Some Failure
   \<and> swot (dashboard_view swot_refetch_failed) = Shown ([''a''], [], [], [])"
  by (simp add: swot_refetch_failed_def swot_rejected_def strengths_only_def dashboard_view_def
      SWOTMatrix_def swotData_def or_empty_def eval_defs Let_def)

text \<open>
  C9, amended. In any state the dashboard can reach, when the strategy fetch of the SWOT
  panel fails, that is, its fetcher rejects with no retry left, the SWOT entry is in
  Failure and the panel renders the value that the entry had before, as it does without
  an error: with something selected, the four quadrants are all empty when the key has
  no resolved value, and otherwise they are those of the last resolved value. The Key
  Insights panel, whose key is a different one, shows what it showed before.
\<close>

theorem swot_failure_local:
  assumes "entries (cache (run opts es initial_dashboard))
             (SWOTMatrix_queryKey (selectedIndustry (sel (run opts es initial_dashboard)))
                (selectedCompany (sel (run opts es initial_dashboard))))
           = Some x"
    and "status x = Loading" and "retries opts \<le> failureCount x"
  shows "map_option status
           (entries (cache (step opts
               (Settled (SWOTMatrix_queryKey (selectedIndustry (sel (run opts es initial_dashboard)))
                           (selectedCompany (sel (run opts es initial_dashboard)))) (Inl err))
               (run opts es initial_dashboard)))
              (SWOTMatrix_queryKey (selectedIndustry (sel (run opts es initial_dashboard)))
                 (selectedCompany (sel (run opts es initial_dashboard)))))
         = Some Failure
    \<and> swot (dashboard_view (step opts
               (Settled (SWOTMatrix_queryKey (selectedIndustry (sel (run opts es initial_dashboard)))
                           (selectedCompany (sel (run opts es initial_dashboard)))) (Inl err))
               (run opts es initial_dashboard)))
        = SWOTMatrix (selectedIndustry (sel (run opts es initial_dashboard)))
            (selectedCompany (sel (run opts es initial_dashboard))) (as_strategy (data x)) False
    \<and> ((truthy_str (selectedIndustry (sel (run opts es initial_dashboard)))
          \<or> truthy_str (selectedCompany (sel (run opts es initial_dashboard))))
        \<and> data x = None \<longrightarrow>
        swot (dashboard_view (step opts
               (Settled (SWOTMatrix_queryKey (selectedIndustry (sel (run opts es initial_dashboard)))
                           (selectedCompany (sel (run opts es initial_dashboard)))) (Inl err))
               (run opts es initial_dashboard)))
        = Shown ([], [], [], []))
    \<and> insights_panel (dashboard_view (step opts
               (Settled (SWOTMatrix_queryKey (selectedIndustry (sel (run opts es initial_dashboard)))
                           (selectedCompany (sel (run opts es initial_dashboard)))) (Inl err))
               (run opts es initial_dashboard)))
        = insights_panel (dashboard_view (run opts es initial_dashboard))
    \<and> SWOTMatrix_queryKey ind com \<noteq> AISummary_insights_queryKey ind' com' md"
proof -
  let ?d = "run opts es initial_dashboard"
  have c: "consistent ?d" by (rule reachable_consistent)
  note f = swot_failure [OF c assms, of err]
  have e: "(truthy_str (selectedIndustry (sel ?d)) \<or> truthy_str (selectedCompany (sel ?d)))
        \<and> data x = None \<longrightarrow>
      SWOTMatrix (selectedIndustry (sel ?d)) (selectedCompany (sel ?d)) (as_strategy (data x)) False
        = Shown ([], [], [], [])"
    using empty_quadrants [of "selectedIndustry (sel ?d)" "selectedCompany (sel ?d)"] by auto
  from f e swot_key_products(2) show ?thesis by simp
qed

theorem swot_failure_local_witness:
  "map_option (\<lambda>y. (status y, failureCount y, data y))
        (entries (cache technology_swot_retried) (SWOTMatrix_queryKey (Some ''Technology'') None))
      = Some (Loading, 3, None)
   \<and> map_option status
        (entries (cache (step Providers swot_rejected technology_swot_retried))
           (SWOTMatrix_queryKey (Some ''Technology'') None))
      = Some Failure
   \<and> swot (dashboard_view (step Providers swot_rejected technology_swot_retried))
      = Shown ([], [], [], [])
   \<and> insights_panel (dashboard_view (step Providers swot_rejected technology_swot_retried))
      = insights_panel (dashboard_view technology_swot_retried)"
proof -
  have s: "selectedIndustry (sel technology_swot_retried) = Some ''Technology''"
    "selectedCompany (sel technology_swot_retried) = None"
    by (simp_all add: technology_swot_retried_def swot_rejected_def sel_render
        initial_dashboard_def initial_selection_def handleIndustryChange_def
        onIndustrySelect_def onCompanySelect_def setSearchValue_def Let_def)
  have x: "entries (cache technology_swot_retried) (SWOTMatrix_queryKey (Some ''Technology'') None)
      = Some \<lparr>status = Loading, data = None, error = None, updatedAt = 0, failureCount = 3\<rparr>"
    by (simp add: technology_swot_retried_def swot_rejected_def eval_defs Let_def)
  have r: "retries Providers
             \<le> failureCount \<lparr>status = Loading, data = None, error = None, updatedAt = 0,
                              failureCount = 3\<rparr>"
    by (simp add: Providers_retries)
  have t: "truthy_str (Some ''Technology'')" by (simp add: truthy_str_def)
  show ?thesis
    using swot_failure_local [where opts = Providers
        and es = "[User (IndustryChange ''Technology''),
                   swot_rejected, swot_rejected, swot_rejected]"
        and x = "\<lparr>status = Loading, data = None, error = None, updatedAt = 0,
                   failureCount = 3\<rparr>"
        and err = "Api (HttpError 500)", folded technology_swot_retried_def] x r t
    by (simp add: s swot_rejected_def empty_quadrants)
qed

section \<open>Enablement\<close>

lemma reachable_step_consistent: "consistent (step opts ev (run opts es initial_dashboard))"
  by (rule step_consistent [OF reachable_consistent])

text \<open>
  C5. With industry and company both \<^verbatim>\<open>null\<close> every query is disabled and no key is enabled;
  and whenever a transition of a state the dashboard can reach ends with both \<^verbatim>\<open>null\<close>, it
  invokes no fetcher, no key is observed afterwards, the four panels show their
  select-an-industry-or-company prompt instead of a loading text, and \<^verbatim>\<open>KPICards\<close> shows
  its three cards with the value 0.
\<close>

theorem disabled_on_empty_selection:
  "\<not> KPICards_enabled None None \<and> \<not> TrendChart_enabled None None
   \<and> \<not> SWOTMatrix_enabled None None \<and> \<not> AISummary_market_enabled None None
   \<and> \<not> AISummary_insights_enabled None None md
   \<and> \<not> StrategicRecommendations_enabled None None
   \<and> enabled_keys None None md = []
   \<and> (selectedIndustry (sel (step opts ev (run opts es initial_dashboard))) = None
      \<and> selectedCompany (sel (step opts ev (run opts es initial_dashboard))) = None \<longrightarrow>
        invoked (run opts es initial_dashboard) (step opts ev (run opts es initial_dashboard)) = []
      \<and> observed (step opts ev (run opts es initial_dashboard)) = []
      \<and> dashboard_view (step opts ev (run opts es initial_dashboard))
          = \<lparr>kpi_cards =
               Inr [\<lparr>label = ''Growth Rate'', shown = ([], Fixed 0 1, ''%'')\<rparr>,
                    \<lparr>label = ''Funding Volume'', shown = (''$'', Fixed 0 1, ''M'')\<rparr>,
                    \<lparr>label = ''Market Size'', shown = (''$'', Fixed 0 1, ''B'')\<rparr>],
             trend = Prompt ''Select an industry or company to view trends'',
             swot = Prompt ''Select an industry or company to generate SWOT analysis'',
             insights_panel = Prompt ''Select an industry or company to generate insights'',
             recommended = Prompt ''Select an industry or company to view recommendations''\<rparr>)"
proof -
  let ?d = "run opts es initial_dashboard"
  let ?d' = "step opts ev ?d"
  have con: "consistent ?d" by (rule reachable_consistent)
  have flags: "\<not> KPICards_enabled None None \<and> \<not> TrendChart_enabled None None
   \<and> \<not> SWOTMatrix_enabled None None \<and> \<not> AISummary_market_enabled None None
   \<and> \<not> AISummary_insights_enabled None None md
   \<and> \<not> StrategicRecommendations_enabled None None
   \<and> enabled_keys None None md = []"
    by (simp add: none_disabled none_keys)
  have dyn: "invoked ?d ?d' = [] \<and> observed ?d' = []
      \<and> dashboard_view ?d'
          = \<lparr>kpi_cards =
               Inr [\<lparr>label = ''Growth Rate'', shown = ([], Fixed 0 1, ''%'')\<rparr>,
                    \<lparr>label = ''Funding Volume'', shown = (''$'', Fixed 0 1, ''M'')\<rparr>,
                    \<lparr>label = ''Market Size'', shown = (''$'', Fixed 0 1, ''B'')\<rparr>],
             trend = Prompt ''Select an industry or company to view trends'',
             swot = Prompt ''Select an industry or company to generate SWOT analysis'',
             insights_panel = Prompt ''Select an industry or company to generate insights'',
             recommended = Prompt ''Select an industry or company to view recommendations''\<rparr>"
    if i: "selectedIndustry (sel ?d') = None" and c: "selectedCompany (sel ?d') = None"
  proof -
    have "set (invoked ?d ?d') \<subseteq> set (enabled_keys None None (market_of (cache ?d') None None))"
      using invoked_enabled [OF con, where opts = opts and ev = ev] i c by simp
    then have inv: "invoked ?d ?d' = []" by (simp add: none_keys)
    have obs: "observed ?d' = []"
      using reachable_step_consistent [where opts = opts and ev = ev and es = es] i c
      by (simp add: consistent_def none_keys)
    have "kpis (run opts (es @ [ev]) initial_dashboard) = initial_kpis"
      by (rule reachable_empty_kpis) (simp_all add: run_snoc i c)
    then have k: "cards (kpis ?d') =
        Inr [\<lparr>label = ''Growth Rate'', shown = ([], Fixed 0 1, ''%'')\<rparr>,
             \<lparr>label = ''Funding Volume'', shown = (''$'', Fixed 0 1, ''M'')\<rparr>,
             \<lparr>label = ''Market Size'', shown = (''$'', Fixed 0 1, ''B'')\<rparr>]"
      by (simp add: run_snoc zero_cards)
    have v: "dashboard_view ?d'
          = \<lparr>kpi_cards = cards (kpis ?d'),
             trend = Prompt ''Select an industry or company to view trends'',
             swot = Prompt ''Select an industry or company to generate SWOT analysis'',
             insights_panel = Prompt ''Select an industry or company to generate insights'',
             recommended = Prompt ''Select an industry or company to view recommendations''\<rparr>"
      using i c
      by (simp add: dashboard_view_def Let_def TrendChart_def SWOTMatrix_def AISummary_def
          StrategicRecommendations_def truthy_str_def)
    from inv obs v k show ?thesis by simp
  qed
  from flags dyn show ?thesis by blast
qed

theorem disabled_on_empty_selection_witness:
  "selectedIndustry (sel (step Providers (User IndustryButton) technology_selected)) = None
   \<and> selectedCompany (sel (step Providers (User IndustryButton) technology_selected)) = None
   \<and> invoked technology_selected (step Providers (User IndustryButton) technology_selected) = []
   \<and> observed (step Providers (User IndustryButton) technology_selected) = []
   \<and> trend (dashboard_view (step Providers (User IndustryButton) technology_selected))
       = Prompt ''Select an industry or company to view trends''"
proof -
  have s: "selectedIndustry (sel (step Providers (User IndustryButton) technology_selected)) = None
   \<and> selectedCompany (sel (step Providers (User IndustryButton) technology_selected)) = None"
    by (simp add: sel_render clickIndustryButton_def onIndustrySelect_def onCompanySelect_def
        setSearchValue_def setSearchType_def)
  from disabled_on_empty_selection
    [where opts = Providers and ev = "User IndustryButton"
       and es = "[User (IndustryChange ''Technology'')]",
      folded technology_selected_def] s
  show ?thesis by simp
qed

subsection \<open>A value in an entry comes from a resolution of its key\<close>








end
